theory Spec2Isabelle
  imports Main "HOL-Library.Word"
begin

unbundle bit_operations_syntax

section \<open>Identifiers and notifications (NTask.hpp)\<close>

text \<open>
  \<open>Identifier_t\<close> and \<open>Notification_t\<close> are unions: a struct of named fields that
  shares its storage with one raw word (\<open>w_id\<close>, 16 bits; \<open>d0\<close>, 32 bits). The fields
  are kept as a record and the raw word is a view of them. The targets of the
  framework (it is built on \<open>esp_log.h\<close> and \<open>freertos/ringbuf.h\<close>) are little-endian:
  the field declared first is the low part of the raw word. So \<open>type\<close> is the low
  byte of \<open>w_id\<close> and \<open>ID\<close> its high byte; \<open>Identifier\<close> is the low half of \<open>d0\<close>
  and the notification's value its high half.
\<close>

record Identifier_t =
  type :: "8 word"
  ID :: "8 word"

definition w_id :: "Identifier_t \<Rightarrow> 16 word" where
  "w_id i = word_cat (ID i) (type i)"

definition of_w_id :: "16 word \<Rightarrow> Identifier_t" where
  "of_w_id w = \<lparr>type = ucast w, ID = ucast (drop_bit 8 w)\<rparr>"

text \<open>The field \<open>value\<close> of the source is \<open>nvalue\<close> here.\<close>

record Notification_t =
  Identifier :: Identifier_t
  nvalue :: "16 word"

definition d0 :: "Notification_t \<Rightarrow> 32 word" where
  "d0 n = word_cat (nvalue n) (w_id (Identifier n))"

definition of_d0 :: "32 word \<Rightarrow> Notification_t" where
  "of_d0 w = \<lparr>Identifier = of_w_id (ucast w), nvalue = ucast (drop_bit 16 w)\<rparr>"

definition NTASK_ID_STARTING :: "8 word" where
  "NTASK_ID_STARTING = 0x01"

definition NTASK_TYPE_NOTIF_ISR_CONTX :: "8 word" where
  "NTASK_TYPE_NOTIF_ISR_CONTX = 0xff"

definition NTASK_TYPE_NOTIF_WORK_QUEU :: "8 word" where
  "NTASK_TYPE_NOTIF_WORK_QUEU = 0xfe"

definition NOTIFICATION_FROM_ISR :: "16 word \<Rightarrow> Notification_t" where
  "NOTIFICATION_FROM_ISR X =
     \<lparr>Identifier = \<lparr>type = NTASK_TYPE_NOTIF_ISR_CONTX, ID = 0\<rparr>, nvalue = X\<rparr>"

section \<open>Kernel objects\<close>

text \<open>
  The queue, the ring buffer and the mutex belong to the real-time kernel, not to the
  repository. They are modelled by their documented contract, for one thread of control
  at a time: while a call of the framework runs, no other task acts. A wait therefore
  has four results: \<open>Done\<close> (the operation took place), \<open>Expired\<close> (the finite timeout
  ran out and the call returned failure), \<open>Refused\<close> (the call returned failure at once,
  without waiting) and \<open>Forever\<close> (the timeout is \<open>portMAX_DELAY\<close> and nothing will
  ever end the wait).
\<close>

type_synonym addr = nat

type_synonym TickType_t = "32 word"

definition portMAX_DELAY :: TickType_t where
  "portMAX_DELAY = 0xffffffff"

definition tskNO_AFFINITY :: "32 word" where
  "tskNO_AFFINITY = 0x7FFFFFFF"

datatype position = queueSEND_TO_BACK | queueSEND_TO_FRONT

datatype wait = Done | Expired | Refused | Forever

record queue_t =
  q_items :: "Notification_t list"
  uxLength :: nat

definition xQueueCreate :: "nat \<Rightarrow> queue_t" where
  "xQueueCreate uxQueueLength = \<lparr>q_items = [], uxLength = uxQueueLength\<rparr>"

definition xQueueGenericSend ::
  "queue_t \<Rightarrow> Notification_t \<Rightarrow> TickType_t \<Rightarrow> position \<Rightarrow> wait \<times> queue_t" where
  "xQueueGenericSend q notif ticktowait pos =
     (if length (q_items q) < uxLength q
      then (Done, q\<lparr>q_items := (case pos of
                                   queueSEND_TO_BACK \<Rightarrow> q_items q @ [notif]
                                 | queueSEND_TO_FRONT \<Rightarrow> notif # q_items q)\<rparr>)
      else if ticktowait = portMAX_DELAY then (Forever, q)
      else (Expired, q))"

text \<open>The interrupt-context sends never wait: a full queue is a failure at once.\<close>

definition xQueueGenericSendFromISR ::
  "queue_t \<Rightarrow> Notification_t \<Rightarrow> position \<Rightarrow> wait \<times> queue_t" where
  "xQueueGenericSendFromISR q notif pos =
     (if length (q_items q) < uxLength q
      then (Done, q\<lparr>q_items := (case pos of
                                   queueSEND_TO_BACK \<Rightarrow> q_items q @ [notif]
                                 | queueSEND_TO_FRONT \<Rightarrow> notif # q_items q)\<rparr>)
      else (Refused, q))"

definition xQueueReceive :: "queue_t \<Rightarrow> TickType_t \<Rightarrow> wait \<times> Notification_t option \<times> queue_t" where
  "xQueueReceive q ticktowait =
     (case q_items q of
        n # ns \<Rightarrow> (Done, Some n, q\<lparr>q_items := ns\<rparr>)
      | [] \<Rightarrow> if ticktowait = portMAX_DELAY then (Forever, None, q) else (Expired, None, q))"

section \<open>Job descriptors (WorkQueue.hpp) and payloads\<close>

text \<open>
  A \<open>WorkFunction\<close> takes the argument pointer and a pointer to the size; it returns a
  pointer to its result and may write the size. Pointers to plain memory are modelled
  by the bytes they point to (\<open>None\<close> is \<open>nullptr\<close>); the function receives the size as
  it stands before the call and returns it as it stands after. A pointer to a function
  is an address of the program's code, so that a job descriptor is plain data, as in
  the source.
\<close>

type_synonym WorkFunction = "8 word list option \<Rightarrow> nat \<Rightarrow> 8 word list option \<times> nat"

record WorkItem =
  work_args :: "8 word list option"
  work_function :: "addr option"
  returning_task :: "addr option"
  notif_value :: "16 word"

text \<open>
  \<open>sizeof(WorkItem)\<close> on the 32-bit targets: three pointers and a 16-bit value,
  padded to the alignment of a pointer.
\<close>

definition sizeof_WorkItem :: nat where
  "sizeof_WorkItem = 16"

text \<open>
  What a \<open>void *data\<close> handed to \<open>sendDataTo\<close> points to: plain bytes, or a job
  descriptor.
\<close>

datatype payload = Bytes "8 word list" | Descriptor WorkItem

text \<open>
  The ring buffer (no-split kind): the items waiting to be received, oldest first; the
  items received and not yet returned, which still occupy their space; and the size in
  bytes. Each item costs its size and a header of 8 bytes (the work queue's constructor
  sizes its buffer by \<open>sizeof(WorkItem) + 8\<close> for each item).
\<close>

type_synonym rb_item = "payload \<times> nat"

record ringbuf_t =
  rb_items :: "rb_item list"
  rb_borrowed :: "rb_item list"
  rb_size :: nat

definition xRingbufferCreate :: "nat \<Rightarrow> ringbuf_t" where
  "xRingbufferCreate xBufferSize = \<lparr>rb_items = [], rb_borrowed = [], rb_size = xBufferSize\<rparr>"

definition rb_used :: "ringbuf_t \<Rightarrow> nat" where
  "rb_used rb = sum_list (map (\<lambda>it. snd it + 8) (rb_items rb @ rb_borrowed rb))"

text \<open>
  \<open>xRingbufferSend\<close> returns \<open>pdFALSE\<close> on a timeout and when the item is larger than
  the buffer can ever hold: such an item is refused at once, whatever the timeout; one
  that does not fit now waits for space.
\<close>

definition xRingbufferSend ::
  "ringbuf_t \<Rightarrow> payload \<Rightarrow> nat \<Rightarrow> TickType_t \<Rightarrow> wait \<times> ringbuf_t" where
  "xRingbufferSend rb pvItem xItemSize ticktowait =
     (if rb_size rb < xItemSize + 8 then (Refused, rb)
      else if rb_used rb + xItemSize + 8 \<le> rb_size rb
      then (Done, rb\<lparr>rb_items := rb_items rb @ [(pvItem, xItemSize)]\<rparr>)
      else if ticktowait = portMAX_DELAY then (Forever, rb)
      else (Expired, rb))"

definition xRingbufferReceive ::
  "ringbuf_t \<Rightarrow> TickType_t \<Rightarrow> wait \<times> rb_item option \<times> ringbuf_t" where
  "xRingbufferReceive rb ticktowait =
     (case rb_items rb of
        it # its \<Rightarrow> (Done, Some it, rb\<lparr>rb_items := its, rb_borrowed := rb_borrowed rb @ [it]\<rparr>)
      | [] \<Rightarrow> if ticktowait = portMAX_DELAY then (Forever, None, rb) else (Expired, None, rb))"

definition vRingbufferReturnItem :: "ringbuf_t \<Rightarrow> rb_item \<Rightarrow> ringbuf_t" where
  "vRingbufferReturnItem rb it = rb\<lparr>rb_borrowed := remove1 it (rb_borrowed rb)\<rparr>"

text \<open>The mutex: \<open>True\<close> while some task holds it.\<close>

definition xSemaphoreTake :: "bool \<Rightarrow> TickType_t \<Rightarrow> wait \<times> bool" where
  "xSemaphoreTake held ticktowait =
     (if \<not> held then (Done, True)
      else if ticktowait = portMAX_DELAY then (Forever, held)
      else (Expired, held))"

section \<open>Objects, the directory and the record of what a call did\<close>

text \<open>
  An object of class \<open>Task\<close>, \<open>NTask\<close> or \<open>RTask\<close>: the fields of \<open>Task\<close> and \<open>NTask\<close>,
  and the members \<open>RTask\<close> adds when the object is one (\<open>WorkQueue\<close> adds none).
\<close>

record RTask_members =
  receiving_buff :: ringbuf_t
  mutex_receiving_buff :: bool

text \<open>The field \<open>identifier\<close> of \<open>NTask\<close> is \<open>ntask_identifier\<close> here.\<close>

record NTask =
  m_taskName :: string
  m_stackSize :: "16 word"
  m_priority :: "8 word"
  m_coreId :: "32 word"
  m_running :: bool
  ntask_identifier :: Identifier_t
  notification_queue :: queue_t
  rtask :: "RTask_members option"

text \<open>
  Every kernel call, error log line, job invocation and \<open>free\<close> that a call makes is
  appended to a trace, with its arguments and its result: the order of the entries is
  the order of the calls.
\<close>

datatype event =
    EvSemaphoreTake addr TickType_t wait
  | EvSemaphoreGive addr
  | EvRingbufferSend addr nat TickType_t wait
  | EvRingbufferReceive addr TickType_t wait
  | EvRingbufferReturnItem addr
  | EvQueueSend addr Notification_t TickType_t position wait
  | EvQueueSendFromISR addr Notification_t position wait
  | EvQueueReceive addr TickType_t wait
  | EvLogE string string
  | EvWorkFunction "8 word list option"
  | EvFree "8 word list"

text \<open>
  The state: the work functions of the program by address, the live objects by address
  (a pointer is an \<open>addr option\<close>, \<open>None\<close> for \<open>nullptr\<close>), the static \<open>ntask_list\<close>, and
  the trace.
\<close>

record sys =
  work_functions :: "addr \<Rightarrow> WorkFunction option"
  actors :: "addr \<Rightarrow> NTask option"
  ntask_list :: "addr list"
  trace :: "event list"

text \<open>
  A call returns a value, or it stops: it waits forever, it reads through a pointer that
  points to no object of the kind the code takes it for (\<open>nullptr\<close> among them), or a
  \<open>configASSERT\<close> fails.
\<close>

datatype stop = WaitsForever | BadPointer | AssertionFailed

datatype 'a outcome = Returns 'a sys | Stops stop sys

definition emit :: "event \<Rightarrow> sys \<Rightarrow> sys" where
  "emit e st = st\<lparr>trace := trace st @ [e]\<rparr>"

definition ESP_LOGE :: "string \<Rightarrow> string \<Rightarrow> sys \<Rightarrow> sys" where
  "ESP_LOGE tag msg st = emit (EvLogE tag msg) st"

definition NTASK_LOG_TAG :: string where
  "NTASK_LOG_TAG = ''NTASK''"

definition RTASK_LOG_TAG :: string where
  "RTASK_LOG_TAG = ''RTASK''"

definition WORKQ_LOG_TAG :: string where
  "WORKQ_LOG_TAG = ''WORKQ''"

section \<open>NTask.cpp\<close>

text \<open>
  \<open>isIDTaken\<close>: the loop over the indices of \<open>ntask_list\<close>, as a recursion over the
  entries from the current index on.
\<close>

fun isIDTaken_from :: "Identifier_t \<Rightarrow> addr list \<Rightarrow> sys \<Rightarrow> bool outcome" where
  "isIDTaken_from ident [] st = Returns False st"
| "isIDTaken_from ident (p # ps) st =
     (case actors st p of
        None \<Rightarrow> Stops BadPointer st
      | Some t \<Rightarrow>
          if w_id ident = w_id (ntask_identifier t) then Returns True st
          else isIDTaken_from ident ps st)"

definition isIDTaken :: "Identifier_t \<Rightarrow> sys \<Rightarrow> bool outcome" where
  "isIDTaken ident st = isIDTaken_from ident (ntask_list st) st"

text \<open>
  \<open>getIDnotTaken\<close>: the \<open>for\<close> loop from its current \<open>identifier.ID\<close> on; the function
  enters it at \<open>NTASK_ID_STARTING\<close>.
\<close>

function getIDnotTaken_loop :: "Identifier_t \<Rightarrow> sys \<Rightarrow> 8 word outcome" where
  "getIDnotTaken_loop ident st =
     (if ID ident < 255 then
        (case isIDTaken ident st of
           Stops e st' \<Rightarrow> Stops e st'
         | Returns taken st' \<Rightarrow>
             if \<not> taken then Returns (ID ident) st'
             else getIDnotTaken_loop (ident\<lparr>ID := ID ident + 1\<rparr>) st')
      else Returns 255
             (ESP_LOGE NTASK_LOG_TAG
                ''Can't assign other peripheral ID because all ID are taken'' st))"
  by pat_completeness auto
termination
proof (relation "measure (\<lambda>(i, st). 255 - unat (ID i))")
  show "wf (measure (\<lambda>(i, st). 255 - unat (ID i)))"
    by simp
next
  fix ident :: Identifier_t and st :: sys and x :: bool and st' :: sys
  assume lt: "ID ident < 255"
  have "unat (ID ident) < 255"
    using lt by (simp add: word_less_nat_alt)
  moreover have "unat (ID ident + 1) = unat (ID ident) + 1"
    using lt by (simp add: unat_word_ariths word_less_nat_alt)
  ultimately show "((ident\<lparr>ID := ID ident + 1\<rparr>, st'), (ident, st))
      \<in> measure (\<lambda>(i, st). 255 - unat (ID i))"
    by simp
qed

declare getIDnotTaken_loop.simps [simp del]

definition getIDnotTaken :: "Identifier_t \<Rightarrow> sys \<Rightarrow> 8 word outcome" where
  "getIDnotTaken ident st =
     getIDnotTaken_loop (ident\<lparr>ID := NTASK_ID_STARTING\<rparr>) st"

text \<open>The static \<open>sendNotificationTo\<close>, the base of every notification send.\<close>

definition sendNotificationTo ::
  "addr option \<Rightarrow> Notification_t \<Rightarrow> TickType_t \<Rightarrow> position \<Rightarrow> sys \<Rightarrow> bool outcome" where
  "sendNotificationTo dest notif ticktowait notif_position st =
     (case dest of
        None \<Rightarrow> Returns False st
      | Some d \<Rightarrow>
          (case actors st d of
             None \<Rightarrow> Stops BadPointer st
           | Some t \<Rightarrow>
               (case xQueueGenericSend (notification_queue t) notif ticktowait notif_position of
                  (w, q') \<Rightarrow>
                    let st' = emit (EvQueueSend d notif ticktowait notif_position w)
                                (st\<lparr>actors := (actors st)(d \<mapsto> t\<lparr>notification_queue := q'\<rparr>)\<rparr>)
                    in if w = Forever then Stops WaitsForever st' else Returns (w = Done) st')))"

text \<open>
  The two sends from interrupt context read \<open>dest->notification_queue\<close> with no test of
  \<open>dest\<close>. Their third parameter only reports to the scheduler whether a task was
  woken; it is left out.
\<close>

definition sendNotificationFromIsrTo :: "addr option \<Rightarrow> 16 word \<Rightarrow> sys \<Rightarrow> bool outcome" where
  "sendNotificationFromIsrTo dest notif_value' st =
     (let notif = NOTIFICATION_FROM_ISR notif_value' in
      case dest of
        None \<Rightarrow> Stops BadPointer st
      | Some d \<Rightarrow>
          (case actors st d of
             None \<Rightarrow> Stops BadPointer st
           | Some t \<Rightarrow>
               (case xQueueGenericSendFromISR (notification_queue t) notif queueSEND_TO_BACK of
                  (w, q') \<Rightarrow>
                    Returns (w = Done)
                      (emit (EvQueueSendFromISR d notif queueSEND_TO_BACK w)
                         (st\<lparr>actors := (actors st)(d \<mapsto> t\<lparr>notification_queue := q'\<rparr>)\<rparr>)))))"

definition sendNotificationToFrontFromIsrTo ::
  "addr option \<Rightarrow> 16 word \<Rightarrow> sys \<Rightarrow> bool outcome" where
  "sendNotificationToFrontFromIsrTo dest notif_value' st =
     (let notif = NOTIFICATION_FROM_ISR notif_value' in
      case dest of
        None \<Rightarrow> Stops BadPointer st
      | Some d \<Rightarrow>
          (case actors st d of
             None \<Rightarrow> Stops BadPointer st
           | Some t \<Rightarrow>
               (case xQueueGenericSendFromISR (notification_queue t) notif queueSEND_TO_FRONT of
                  (w, q') \<Rightarrow>
                    Returns (w = Done)
                      (emit (EvQueueSendFromISR d notif queueSEND_TO_FRONT w)
                         (st\<lparr>actors := (actors st)(d \<mapsto> t\<lparr>notification_queue := q'\<rparr>)\<rparr>)))))"

definition receiveNotification :: "addr \<Rightarrow> TickType_t \<Rightarrow> sys \<Rightarrow> Notification_t outcome" where
  "receiveNotification this ticktowait st =
     (case actors st this of
        None \<Rightarrow> Stops BadPointer st
      | Some t \<Rightarrow>
          (case xQueueReceive (notification_queue t) ticktowait of
             (w, r, q') \<Rightarrow>
               let st' = emit (EvQueueReceive this ticktowait w)
                           (st\<lparr>actors := (actors st)(this \<mapsto> t\<lparr>notification_queue := q'\<rparr>)\<rparr>)
               in if w = Forever then Stops WaitsForever st'
                  else (case r of
                          Some notif \<Rightarrow> Returns notif st'
                        | None \<Rightarrow> Returns (of_d0 0) st')))"

text \<open>
  The constructors. \<open>this\<close> is the address of the storage the object is built in. The
  constructor of \<open>Task\<close> sets the fields of \<open>Task\<close>; the fields \<open>NTask\<close> adds are not
  yet initialised then and stand as zero until the body of the constructor of \<open>NTask\<close>
  assigns them (\<open>getIDnotTaken\<close> overwrites the \<open>ID\<close> it is handed before it reads it).
\<close>

definition Task_ctor :: "string \<Rightarrow> 16 word \<Rightarrow> 8 word \<Rightarrow> NTask" where
  "Task_ctor taskName stackSize priority =
     \<lparr>m_taskName = taskName, m_stackSize = stackSize, m_priority = priority,
      m_coreId = tskNO_AFFINITY, m_running = False,
      ntask_identifier = \<lparr>type = 0, ID = 0\<rparr>,
      notification_queue = xQueueCreate 0, rtask = None\<rparr>"

definition setCore :: "32 word \<Rightarrow> NTask \<Rightarrow> NTask" where
  "setCore coreId t = t\<lparr>m_coreId := coreId\<rparr>"

definition NTask_ctor ::
  "addr \<Rightarrow> 8 word \<Rightarrow> string \<Rightarrow> 16 word \<Rightarrow> 8 word \<Rightarrow> 8 word \<Rightarrow> 8 word \<Rightarrow> sys \<Rightarrow> unit outcome" where
  "NTask_ctor this ntype taskName stackSize priority coreId notification_queue_size st =
     (let t0 = Task_ctor taskName stackSize priority;
          t1 = setCore (ucast coreId) t0;
          t2 = t1\<lparr>ntask_identifier := (ntask_identifier t1)\<lparr>type := ntype\<rparr>\<rparr>
      in case getIDnotTaken (ntask_identifier t2) st of
           Stops e st' \<Rightarrow> Stops e st'
         | Returns i st' \<Rightarrow>
             let t3 = t2\<lparr>ntask_identifier := (ntask_identifier t2)\<lparr>ID := i\<rparr>\<rparr>;
                 t4 = t3\<lparr>notification_queue := xQueueCreate (unat notification_queue_size)\<rparr>
             in Returns ()
                  (st'\<lparr>actors := (actors st')(this \<mapsto> t4),
                       ntask_list := ntask_list st' @ [this]\<rparr>))"

text \<open>
  The destructor: the loop that looks for \<open>this\<close> in \<open>ntask_list\<close> and the \<open>erase\<close> at
  the index found, as one recursion; then the queue is deleted and the storage of the
  object ends with it.
\<close>

fun erase_this :: "addr \<Rightarrow> addr list \<Rightarrow> addr list" where
  "erase_this this [] = []"
| "erase_this this (p # ps) = (if this \<noteq> p then p # erase_this this ps else ps)"

definition NTask_dtor :: "addr \<Rightarrow> sys \<Rightarrow> unit outcome" where
  "NTask_dtor this st =
     (case actors st this of
        None \<Rightarrow> Stops BadPointer st
      | Some t \<Rightarrow>
          Returns ()
            (st\<lparr>ntask_list := erase_this this (ntask_list st),
                actors := (actors st)(this := None)\<rparr>))"

fun getNTaskByIdentifier_from :: "Identifier_t \<Rightarrow> addr list \<Rightarrow> sys \<Rightarrow> addr option outcome" where
  "getNTaskByIdentifier_from ident [] st =
     Returns None
       (ESP_LOGE NTASK_LOG_TAG ''Can't find Ntask corresponding to Type:ID %X:%X'' st)"
| "getNTaskByIdentifier_from ident (p # ps) st =
     (case actors st p of
        None \<Rightarrow> Stops BadPointer st
      | Some t \<Rightarrow>
          if w_id (ntask_identifier t) \<noteq> w_id ident
          then getNTaskByIdentifier_from ident ps st
          else Returns (Some p) st)"

definition getNTaskByIdentifier :: "Identifier_t \<Rightarrow> sys \<Rightarrow> addr option outcome" where
  "getNTaskByIdentifier ident st = getNTaskByIdentifier_from ident (ntask_list st) st"

text \<open>The members of NTask.hpp that the work queue uses.\<close>

definition TO_NOTIFICATION :: "NTask \<Rightarrow> 16 word \<Rightarrow> Notification_t" where
  "TO_NOTIFICATION this_obj X = \<lparr>Identifier = ntask_identifier this_obj, nvalue = X\<rparr>"

definition sendNotificationTo_value ::
  "addr \<Rightarrow> addr option \<Rightarrow> 16 word \<Rightarrow> TickType_t \<Rightarrow> sys \<Rightarrow> bool outcome" where
  "sendNotificationTo_value this destination notif_value' ticktowait st =
     (case actors st this of
        None \<Rightarrow> Stops BadPointer st
      | Some me \<Rightarrow>
          sendNotificationTo destination (TO_NOTIFICATION me notif_value') ticktowait
            queueSEND_TO_BACK st)"

section \<open>RTask.hpp and RTask.cpp\<close>

text \<open>
  The kernel calls on the members of the \<open>RTask\<close> at an address: each reads the object,
  fails when the address holds no \<open>RTask\<close>, stores the member as the call leaves it, and
  records the call.
\<close>

definition take_mutex_receiving_buff :: "addr \<Rightarrow> TickType_t \<Rightarrow> sys \<Rightarrow> bool outcome" where
  "take_mutex_receiving_buff d ticktowait st =
     (case actors st d of
        None \<Rightarrow> Stops BadPointer st
      | Some t \<Rightarrow>
          (case rtask t of
             None \<Rightarrow> Stops BadPointer st
           | Some r \<Rightarrow>
               (case xSemaphoreTake (mutex_receiving_buff r) ticktowait of
                  (w, m') \<Rightarrow>
                    let st' = emit (EvSemaphoreTake d ticktowait w)
                                (st\<lparr>actors := (actors st)
                                      (d \<mapsto> t\<lparr>rtask := Some (r\<lparr>mutex_receiving_buff := m'\<rparr>)\<rparr>)\<rparr>)
                    in if w = Forever then Stops WaitsForever st' else Returns (w = Done) st')))"

definition give_mutex_receiving_buff :: "addr \<Rightarrow> sys \<Rightarrow> unit outcome" where
  "give_mutex_receiving_buff d st =
     (case actors st d of
        None \<Rightarrow> Stops BadPointer st
      | Some t \<Rightarrow>
          (case rtask t of
             None \<Rightarrow> Stops BadPointer st
           | Some r \<Rightarrow>
               Returns ()
                 (emit (EvSemaphoreGive d)
                    (st\<lparr>actors := (actors st)
                          (d \<mapsto> t\<lparr>rtask := Some (r\<lparr>mutex_receiving_buff := False\<rparr>)\<rparr>)\<rparr>))))"

definition send_receiving_buff ::
  "addr \<Rightarrow> payload \<Rightarrow> nat \<Rightarrow> TickType_t \<Rightarrow> sys \<Rightarrow> bool outcome" where
  "send_receiving_buff d pvItem xItemSize ticktowait st =
     (case actors st d of
        None \<Rightarrow> Stops BadPointer st
      | Some t \<Rightarrow>
          (case rtask t of
             None \<Rightarrow> Stops BadPointer st
           | Some r \<Rightarrow>
               (case xRingbufferSend (receiving_buff r) pvItem xItemSize ticktowait of
                  (w, rb') \<Rightarrow>
                    let st' = emit (EvRingbufferSend d xItemSize ticktowait w)
                                (st\<lparr>actors := (actors st)
                                      (d \<mapsto> t\<lparr>rtask := Some (r\<lparr>receiving_buff := rb'\<rparr>)\<rparr>)\<rparr>)
                    in if w = Forever then Stops WaitsForever st' else Returns (w = Done) st')))"

text \<open>
  \<open>receiveData\<close> returns the pointer to the item received, or \<open>nullptr\<close>; the item
  carries its size, which the source writes through its first parameter.
\<close>

definition receiveData :: "addr \<Rightarrow> TickType_t \<Rightarrow> sys \<Rightarrow> rb_item option outcome" where
  "receiveData this tickToWait st =
     (case actors st this of
        None \<Rightarrow> Stops BadPointer st
      | Some t \<Rightarrow>
          (case rtask t of
             None \<Rightarrow> Stops BadPointer st
           | Some r \<Rightarrow>
               (case xRingbufferReceive (receiving_buff r) tickToWait of
                  (w, it, rb') \<Rightarrow>
                    let st' = emit (EvRingbufferReceive this tickToWait w)
                                (st\<lparr>actors := (actors st)
                                      (this \<mapsto> t\<lparr>rtask := Some (r\<lparr>receiving_buff := rb'\<rparr>)\<rparr>)\<rparr>)
                    in if w = Forever then Stops WaitsForever st' else Returns it st')))"

definition returnData :: "addr \<Rightarrow> rb_item \<Rightarrow> sys \<Rightarrow> unit outcome" where
  "returnData this it st =
     (case actors st this of
        None \<Rightarrow> Stops BadPointer st
      | Some t \<Rightarrow>
          (case rtask t of
             None \<Rightarrow> Stops BadPointer st
           | Some r \<Rightarrow>
               Returns ()
                 (emit (EvRingbufferReturnItem this)
                    (st\<lparr>actors := (actors st)
                          (this \<mapsto> t\<lparr>rtask := Some (r\<lparr>receiving_buff :=
                                   vRingbufferReturnItem (receiving_buff r) it\<rparr>)\<rparr>)\<rparr>))))"

text \<open>The static \<open>sendDataTo\<close> of RTask.cpp, the base of every data send.\<close>

definition sendDataTo ::
  "addr option \<Rightarrow> payload option \<Rightarrow> nat \<Rightarrow> TickType_t \<Rightarrow> bool \<Rightarrow> Notification_t \<Rightarrow> sys
     \<Rightarrow> bool outcome" where
  "sendDataTo destination data' size' ticktowait usenotif notification st =
     (case destination of
        None \<Rightarrow> Returns False st
      | Some d \<Rightarrow>
          (case data' of
             None \<Rightarrow> Returns False st
           | Some dat \<Rightarrow>
               (case take_mutex_receiving_buff d ticktowait st of
                  Stops e st1 \<Rightarrow> Stops e st1
                | Returns taken st1 \<Rightarrow>
                    if taken then
                      (case send_receiving_buff d dat size' ticktowait st1 of
                         Stops e st2 \<Rightarrow> Stops e st2
                       | Returns t st2 \<Rightarrow>
                           (case (if usenotif
                                  then sendNotificationTo (Some d) notification portMAX_DELAY
                                         queueSEND_TO_BACK st2
                                  else Returns True st2) of
                              Stops e st3 \<Rightarrow> Stops e st3
                            | Returns sent st3 \<Rightarrow>
                                (case give_mutex_receiving_buff d st3 of
                                   Stops e st4 \<Rightarrow> Stops e st4
                                 | Returns u st4 \<Rightarrow> Returns t st4)))
                    else
                      (case actors st1 d of
                         None \<Rightarrow> Stops BadPointer st1
                       | Some obj \<Rightarrow>
                           Returns False
                             (ESP_LOGE RTASK_LOG_TAG
                                (''Unable to take RingBuffer Semaphore of RTask '' @ m_taskName obj)
                                st1)))))"

definition RTask_ctor ::
  "addr \<Rightarrow> 8 word \<Rightarrow> string \<Rightarrow> 16 word \<Rightarrow> 8 word \<Rightarrow> 8 word \<Rightarrow> 8 word \<Rightarrow> nat \<Rightarrow> sys
     \<Rightarrow> unit outcome" where
  "RTask_ctor this ntype taskName stackSize priority coreId notification_queue_size
       ringbuffer_size st =
     (case NTask_ctor this ntype taskName stackSize priority coreId notification_queue_size st of
        Stops e st1 \<Rightarrow> Stops e st1
      | Returns u st1 \<Rightarrow>
          if \<not> 0 < ringbuffer_size then Stops AssertionFailed st1
          else
            (case actors st1 this of
               None \<Rightarrow> Stops BadPointer st1
             | Some t \<Rightarrow>
                 Returns ()
                   (st1\<lparr>actors := (actors st1)
                          (this \<mapsto> t\<lparr>rtask := Some \<lparr>receiving_buff = xRingbufferCreate ringbuffer_size,
                                                     mutex_receiving_buff = False\<rparr>\<rparr>)\<rparr>)))"

text \<open>
  The destructor of \<open>RTask\<close> deletes the mutex and the ring buffer, then the destructor
  of \<open>NTask\<close> runs; both members end with the object.
\<close>

definition RTask_dtor :: "addr \<Rightarrow> sys \<Rightarrow> unit outcome" where
  "RTask_dtor this st = NTask_dtor this st"

section \<open>WorkQueue.cpp\<close>

definition NOTIFICATION_WORK_IN_QUEUE :: "'a::len word" where
  "NOTIFICATION_WORK_IN_QUEUE = 0x01"

text \<open>The constructor hands \<open>0\<close> to \<open>RTask\<close> where the core is expected.\<close>

definition WorkQueue_ctor :: "addr \<Rightarrow> 16 word \<Rightarrow> 8 word \<Rightarrow> 8 word \<Rightarrow> 8 word \<Rightarrow> sys \<Rightarrow> unit outcome" where
  "WorkQueue_ctor this stackSize priority workQueueLength coreID st =
     RTask_ctor this NTASK_TYPE_NOTIF_WORK_QUEU ''workQueue'' stackSize priority 0
       workQueueLength ((sizeof_WorkItem + 8) * unat workQueueLength) st"

definition sendWork :: "addr \<Rightarrow> WorkItem \<Rightarrow> sys \<Rightarrow> bool outcome" where
  "sendWork this item st =
     sendDataTo (Some this) (Some (Descriptor item)) sizeof_WorkItem portMAX_DELAY True
       (of_d0 NOTIFICATION_WORK_IN_QUEUE) st"

text \<open>\<open>free\<close>: nothing for \<open>nullptr\<close>.\<close>

definition free :: "8 word list option \<Rightarrow> sys \<Rightarrow> sys" where
  "free ptr st = (case ptr of None \<Rightarrow> st | Some bytes \<Rightarrow> emit (EvFree bytes) st)"

text \<open>
  One pass through the body of the \<open>while (true)\<close> of \<open>run\<close>. The \<open>memcpy\<close> into \<open>item\<close>
  yields the descriptor that was sent. A descriptor whose \<open>work_function\<close> is no
  function of the program, or an item of the size of a descriptor that holds other
  bytes, makes the call go through a bad pointer, and the pass stops there.
\<close>

definition run_iteration :: "addr \<Rightarrow> sys \<Rightarrow> unit outcome" where
  "run_iteration this st =
     (case receiveNotification this portMAX_DELAY st of
        Stops e st1 \<Rightarrow> Stops e st1
      | Returns notif st1 \<Rightarrow>
          if nvalue notif = NOTIFICATION_WORK_IN_QUEUE then
            (case receiveData this portMAX_DELAY st1 of
               Stops e st2 \<Rightarrow> Stops e st2
             | Returns ret_data st2 \<Rightarrow>
                 (let size' = (case ret_data of None \<Rightarrow> 0 | Some (p, n) \<Rightarrow> n) in
                  if size' = sizeof_WorkItem then
                    (case ret_data of
                       Some (Descriptor item, n) \<Rightarrow>
                         (case returnData this (Descriptor item, n) st2 of
                            Stops e st3 \<Rightarrow> Stops e st3
                          | Returns u st3 \<Rightarrow>
                              (case (case work_function item of
                                       None \<Rightarrow> None
                                     | Some f \<Rightarrow> work_functions st3 f) of
                                 None \<Rightarrow> Stops BadPointer st3
                               | Some job \<Rightarrow>
                              (case job (work_args item) size' of
                                 (ret, size'') \<Rightarrow>
                                   let st4 = emit (EvWorkFunction (work_args item)) st3 in
                                   if 0 < size'' \<and> ret \<noteq> None then
                                     (case actors st4 this of
                                        None \<Rightarrow> Stops BadPointer st4
                                      | Some me \<Rightarrow>
                                          (case sendDataTo (returning_task item) (map_option Bytes ret)
                                                  size'' portMAX_DELAY True
                                                  (TO_NOTIFICATION me (notif_value item)) st4 of
                                             Stops e st5 \<Rightarrow> Stops e st5
                                           | Returns t st5 \<Rightarrow> Returns () (free ret st5)))
                                   else
                                     (case sendNotificationTo_value this (returning_task item)
                                             (notif_value item) portMAX_DELAY st4 of
                                        Stops e st5 \<Rightarrow> Stops e st5
                                      | Returns t st5 \<Rightarrow> Returns () st5))))
                     | other \<Rightarrow> Stops BadPointer st2)
                  else
                    Returns ()
                      (ESP_LOGE WORKQ_LOG_TAG
                         ''%X : Invalide size of received WorkItem from %X:%X : %db instead of %db''
                         st2)))
          else
            Returns ()
              (ESP_LOGE WORKQ_LOG_TAG ''%X : Invalide notif received from %X:%X'' st1))"

text \<open>
  \<open>run\<close>: the loop has no exit, so the model runs a given number of passes; it ends
  earlier only where a pass stops.
\<close>

fun run :: "nat \<Rightarrow> addr \<Rightarrow> sys \<Rightarrow> unit outcome" where
  "run 0 this st = Returns () st"
| "run (Suc n) this st =
     (case run_iteration this st of
        Stops e st' \<Rightarrow> Stops e st'
      | Returns u st' \<Rightarrow> run n this st')"

section \<open>Reading a state\<close>

text \<open>
  What the properties below speak about: the notifications waiting in the mailbox of the
  object at an address, the items waiting in its ring buffer, the items borrowed from it,
  whether its mutex is held, and the identifiers that \<open>ntask_list\<close> leads to.
\<close>

definition mailbox :: "sys \<Rightarrow> addr \<Rightarrow> Notification_t list" where
  "mailbox st p = (case actors st p of None \<Rightarrow> [] | Some t \<Rightarrow> q_items (notification_queue t))"

definition ring :: "sys \<Rightarrow> addr \<Rightarrow> rb_item list" where
  "ring st p =
     (case actors st p of
        None \<Rightarrow> []
      | Some t \<Rightarrow> (case rtask t of None \<Rightarrow> [] | Some r \<Rightarrow> rb_items (receiving_buff r)))"

definition borrowed :: "sys \<Rightarrow> addr \<Rightarrow> rb_item list" where
  "borrowed st p =
     (case actors st p of
        None \<Rightarrow> []
      | Some t \<Rightarrow> (case rtask t of None \<Rightarrow> [] | Some r \<Rightarrow> rb_borrowed (receiving_buff r)))"

definition mutex_held :: "sys \<Rightarrow> addr \<Rightarrow> bool" where
  "mutex_held st p =
     (case actors st p of
        None \<Rightarrow> False
      | Some t \<Rightarrow> (case rtask t of None \<Rightarrow> False | Some r \<Rightarrow> mutex_receiving_buff r))"

definition identifier_at :: "sys \<Rightarrow> addr \<Rightarrow> Identifier_t option" where
  "identifier_at st p = map_option ntask_identifier (actors st p)"

definition identifiers_of :: "sys \<Rightarrow> addr list \<Rightarrow> Identifier_t list" where
  "identifiers_of st ps = List.map_filter (identifier_at st) ps"

text \<open>Every entry of \<open>ntask_list\<close> points to a live object.\<close>

definition directory_live :: "sys \<Rightarrow> bool" where
  "directory_live st = list_all (\<lambda>p. actors st p \<noteq> None) (ntask_list st)"

text \<open>The object the constructor of \<open>NTask\<close> leaves at \<open>this\<close> when it assigns the id \<open>i\<close>.\<close>

definition new_NTask ::
  "8 word \<Rightarrow> string \<Rightarrow> 16 word \<Rightarrow> 8 word \<Rightarrow> 8 word \<Rightarrow> 8 word \<Rightarrow> 8 word \<Rightarrow> NTask" where
  "new_NTask ntype taskName stackSize priority coreId notification_queue_size i =
     \<lparr>m_taskName = taskName, m_stackSize = stackSize, m_priority = priority,
      m_coreId = ucast coreId, m_running = False,
      ntask_identifier = \<lparr>type = ntype, ID = i\<rparr>,
      notification_queue = xQueueCreate (unat notification_queue_size), rtask = None\<rparr>"

section \<open>Scenarios\<close>

text \<open>
  A work function that reads a 32-bit integer (least significant byte first) and returns
  twice its value as a result of 4 bytes; with no such argument it returns \<open>nullptr\<close>
  and size 0.
\<close>

definition twice :: WorkFunction where
  "twice args sz =
     (case args of
        Some [b0, b1, b2, b3] \<Rightarrow>
          (let x = (word_cat b3 (word_cat b2 (word_cat b1 b0 :: 16 word) :: 24 word) :: 32 word);
               y = 2 * x
           in (Some [ucast y, ucast (drop_bit 8 y), ucast (drop_bit 16 y), ucast (drop_bit 24 y)], 4))
      | other \<Rightarrow> (None, 0))"

text \<open>The system before any object is built; \<open>twice\<close> is the function at address 100.\<close>

definition boot :: sys where
  "boot = \<lparr>work_functions = (\<lambda>a. if a = 100 then Some twice else None),
           actors = (\<lambda>a. None), ntask_list = [], trace = []\<rparr>"

text \<open>
  Constructions of \<open>NTask\<close>s of one type, one after the other with no destruction
  between, at the addresses given; the other arguments are the defaults of NTask.hpp.
\<close>

fun construct_all :: "8 word \<Rightarrow> addr list \<Rightarrow> sys \<Rightarrow> unit outcome" where
  "construct_all ntype [] st = Returns () st"
| "construct_all ntype (p # ps) st =
     (case NTask_ctor p ntype ''Task'' 10000 2 0 8 st of
        Stops e st' \<Rightarrow> Stops e st'
      | Returns u st' \<Rightarrow> construct_all ntype ps st')"

text \<open>The state after the first \<open>n\<close> of them, at the addresses \<open>0\<close> to \<open>n - 1\<close>, from \<open>boot\<close>.\<close>

definition lined_up :: "8 word \<Rightarrow> nat \<Rightarrow> sys" where
  "lined_up ntype n =
     boot\<lparr>actors := (\<lambda>p. if p < n then Some (new_NTask ntype ''Task'' 10000 2 0 8 (of_nat (Suc p)))
                          else None),
          ntask_list := [0..<n]\<rparr>"

text \<open>
  The state after 256 of them: the ids 1 to 254 were assigned in turn, the last two
  constructions found no id and logged it.
\<close>

definition crowded :: "8 word \<Rightarrow> sys" where
  "crowded ntype =
     boot\<lparr>actors := (\<lambda>p. if p < 254 then Some (new_NTask ntype ''Task'' 10000 2 0 8 (of_nat (Suc p)))
                          else if p < 256 then Some (new_NTask ntype ''Task'' 10000 2 0 8 255)
                          else None),
          ntask_list := [0..<256],
          trace := [EvLogE NTASK_LOG_TAG ''Can't assign other peripheral ID because all ID are taken'',
                    EvLogE NTASK_LOG_TAG ''Can't assign other peripheral ID because all ID are taken'']\<rparr>"

text \<open>
  The object the constructor of \<open>RTask\<close> builds with the defaults of RTask.hpp when the
  id \<open>i\<close> is assigned, and the system that holds one such object, at address 1.
\<close>

definition an_RTask :: "8 word \<Rightarrow> NTask" where
  "an_RTask i =
     (new_NTask 0 ''Task'' 10000 2 0 8 i)
       \<lparr>rtask := Some \<lparr>receiving_buff = xRingbufferCreate 128, mutex_receiving_buff = False\<rparr>\<rparr>"

definition one_rtask :: sys where
  "one_rtask = boot\<lparr>actors := (actors boot)(1 \<mapsto> an_RTask 1), ntask_list := [1]\<rparr>"

text \<open>The same system while another task holds the mutex of the object.\<close>

definition one_rtask_locked :: sys where
  "one_rtask_locked =
     boot\<lparr>actors := (actors boot)
            (1 \<mapsto> (an_RTask 1)\<lparr>rtask := Some \<lparr>receiving_buff = xRingbufferCreate 128,
                                              mutex_receiving_buff = True\<rparr>\<rparr>),
          ntask_list := [1]\<rparr>"

text \<open>The same system with eight notifications waiting in the mailbox (its length is 8).\<close>

definition one_rtask_mailbox_full :: sys where
  "one_rtask_mailbox_full =
     boot\<lparr>actors := (actors boot)
            (1 \<mapsto> (an_RTask 1)\<lparr>notification_queue :=
                         \<lparr>q_items = replicate 8 (NOTIFICATION_FROM_ISR 3), uxLength = 8\<rparr>\<rparr>),
          ntask_list := [1]\<rparr>"

text \<open>
  The work queue the constructor of \<open>WorkQueue\<close> builds with the defaults of
  WorkQueue.hpp, and the system that holds it at address 2 beside the \<open>RTask\<close> at 1.
\<close>

definition a_WorkQueue :: NTask where
  "a_WorkQueue =
     (new_NTask NTASK_TYPE_NOTIF_WORK_QUEU ''workQueue'' 5000 3 0 3 1)
       \<lparr>rtask := Some \<lparr>receiving_buff = xRingbufferCreate 72, mutex_receiving_buff = False\<rparr>\<rparr>"

definition with_queue :: sys where
  "with_queue = one_rtask\<lparr>actors := (actors one_rtask)(2 \<mapsto> a_WorkQueue), ntask_list := [1, 2]\<rparr>"

text \<open>
  A job descriptor: double 21 with the function at address 100, and answer to the \<open>RTask\<close>
  at address 1 with the notification value 7.
\<close>

definition job_21 :: WorkItem where
  "job_21 = \<lparr>work_args = Some [21, 0, 0, 0], work_function = Some 100,
             returning_task = Some 1, notif_value = 7\<rparr>"

text \<open>
  Payloads of 4 bytes sent to the work queue at address 2 as work, each followed by one
  pass of the loop of the queue.
\<close>

fun wrong_sizes :: "nat \<Rightarrow> sys \<Rightarrow> unit outcome" where
  "wrong_sizes 0 st = Returns () st"
| "wrong_sizes (Suc n) st =
     (case sendDataTo (Some 2) (Some (Bytes [1, 2, 3, 4])) 4 0 True
             \<lparr>Identifier = \<lparr>type = 0, ID = 1\<rparr>, nvalue = NOTIFICATION_WORK_IN_QUEUE\<rparr> st of
        Stops e st' \<Rightarrow> Stops e st'
      | Returns t st1 \<Rightarrow>
          (case run_iteration 2 st1 of
             Stops e st' \<Rightarrow> Stops e st'
           | Returns u st2 \<Rightarrow> wrong_sizes n st2))"

section \<open>Identifiers\<close>

lemma of_w_id_w_id: "of_w_id (w_id i) = i"
proof -
  have "ucast (word_cat (ID i) (type i) :: 16 word) = type i"
    by (rule bit_word_eqI) (auto simp: bit_simps)
  moreover have "ucast (drop_bit 8 (word_cat (ID i) (type i) :: 16 word)) = ID i"
    by (rule bit_word_eqI) (auto simp: bit_simps)
  ultimately show ?thesis
    by (simp add: of_w_id_def w_id_def)
qed

lemma w_id_eq_iff: "w_id a = w_id b \<longleftrightarrow> a = b"
  by (metis of_w_id_w_id)

lemma word8_succ: "(i :: 8 word) < 255 \<Longrightarrow> i \<le> k \<Longrightarrow> k \<noteq> i \<Longrightarrow> i + 1 \<le> k"
  by (metis inc_le word_le_less_eq)

lemma word8_pred:
  assumes "(i :: 8 word) < 255" and "i + 1 \<le> k"
  shows "i \<le> k"
proof -
  have "unat (i + 1) = unat i + 1"
    using assms(1) by (simp add: unat_word_ariths word_less_nat_alt)
  then show ?thesis
    using assms(2) by (simp add: word_le_nat_alt)
qed

section \<open>The scan for a free id\<close>

lemma isIDTaken_from_live:
  "list_all (\<lambda>p. actors st p \<noteq> None) ps \<Longrightarrow>
   isIDTaken_from ident ps st = Returns (ident \<in> set (identifiers_of st ps)) st"
proof (induction ps)
  case Nil
  then show ?case by (simp add: identifiers_of_def List.map_filter_simps)
next
  case (Cons p ps)
  then obtain t where t: "actors st p = Some t" by auto
  from Cons have IH: "isIDTaken_from ident ps st = Returns (ident \<in> set (identifiers_of st ps)) st"
    by simp
  show ?case
    using t IH
    by (auto simp: identifiers_of_def identifier_at_def List.map_filter_simps w_id_eq_iff)
qed

lemma isIDTaken_live:
  "directory_live st \<Longrightarrow>
   isIDTaken ident st = Returns (ident \<in> set (identifiers_of st (ntask_list st))) st"
  by (simp add: isIDTaken_def directory_live_def isIDTaken_from_live)

lemma getIDnotTaken_loop_finds:
  "directory_live st \<Longrightarrow> ID ident \<le> j \<Longrightarrow> j < 255 \<Longrightarrow>
   ident\<lparr>ID := j\<rparr> \<notin> set (identifiers_of st (ntask_list st)) \<Longrightarrow>
   (\<And>k. ID ident \<le> k \<Longrightarrow> k < j \<Longrightarrow> ident\<lparr>ID := k\<rparr> \<in> set (identifiers_of st (ntask_list st))) \<Longrightarrow>
   getIDnotTaken_loop ident st = Returns j st"
proof (induction ident st rule: getIDnotTaken_loop.induct)
  case (1 ident st)
  have lt: "ID ident < 255" using "1.prems" by auto
  show ?case
  proof (cases "ID ident = j")
    case True
    then have "ident\<lparr>ID := j\<rparr> = ident" by simp
    then have "ident \<notin> set (identifiers_of st (ntask_list st))" using "1.prems"(4) by simp
    then show ?thesis
      using lt True "1.prems"(1)
      by (subst getIDnotTaken_loop.simps) (simp add: isIDTaken_live)
  next
    case False
    then have lj: "ID ident < j" using "1.prems"(2) by simp
    have "ident\<lparr>ID := ID ident\<rparr> \<in> set (identifiers_of st (ntask_list st))"
      using "1.prems"(5)[of "ID ident"] lj by simp
    then have tk: "ident \<in> set (identifiers_of st (ntask_list st))" by simp
    have step: "ID ident + 1 \<le> j" using lt "1.prems"(2) False word8_succ by blast
    have lt1: "\<And>k. ID ident + 1 \<le> k \<Longrightarrow> ID ident \<le> k"
      using lt word8_pred by blast
    have rec: "getIDnotTaken_loop (ident\<lparr>ID := ID ident + 1\<rparr>) st = Returns j st"
    proof (rule "1.IH"[OF lt _ _ "1.prems"(1)])
      show "isIDTaken ident st = Returns True st"
        using tk "1.prems"(1) by (simp add: isIDTaken_live)
      show "\<not> \<not> True" by simp
      show "ID (ident\<lparr>ID := ID ident + 1\<rparr>) \<le> j" using step by simp
      show "j < 255" by fact
      show "ident\<lparr>ID := ID ident + 1, ID := j\<rparr> \<notin> set (identifiers_of st (ntask_list st))"
        using "1.prems"(4) by simp
      fix k assume "ID (ident\<lparr>ID := ID ident + 1\<rparr>) \<le> k" "k < j"
      then have "ID ident \<le> k" using lt1 by simp
      then show "ident\<lparr>ID := ID ident + 1, ID := k\<rparr> \<in> set (identifiers_of st (ntask_list st))"
        using "1.prems"(5)[of k] \<open>k < j\<close> by simp
    qed
    show ?thesis
      using lt tk rec "1.prems"(1)
      by (subst getIDnotTaken_loop.simps) (simp add: isIDTaken_live)
  qed
qed


lemma getIDnotTaken_loop_exhausted:
  "directory_live st \<Longrightarrow>
   (\<And>k. ID ident \<le> k \<Longrightarrow> k < 255 \<Longrightarrow> ident\<lparr>ID := k\<rparr> \<in> set (identifiers_of st (ntask_list st))) \<Longrightarrow>
   getIDnotTaken_loop ident st =
     Returns 255 (ESP_LOGE NTASK_LOG_TAG ''Can't assign other peripheral ID because all ID are taken'' st)"
proof (induction ident st rule: getIDnotTaken_loop.induct)
  case (1 ident st)
  show ?case
  proof (cases "ID ident < 255")
    case False
    then show ?thesis
      by (subst getIDnotTaken_loop.simps) simp
  next
    case lt: True
    have "ident\<lparr>ID := ID ident\<rparr> \<in> set (identifiers_of st (ntask_list st))"
      using "1.prems"(2)[of "ID ident"] lt by simp
    then have tk: "ident \<in> set (identifiers_of st (ntask_list st))" by simp
    have rec: "getIDnotTaken_loop (ident\<lparr>ID := ID ident + 1\<rparr>) st =
      Returns 255 (ESP_LOGE NTASK_LOG_TAG ''Can't assign other peripheral ID because all ID are taken'' st)"
    proof (rule "1.IH"[OF lt _ _ "1.prems"(1)])
      show "isIDTaken ident st = Returns True st"
        using tk "1.prems"(1) by (simp add: isIDTaken_live)
      show "\<not> \<not> True" by simp
      fix k assume "ID (ident\<lparr>ID := ID ident + 1\<rparr>) \<le> k" "k < 255"
      then have "ID ident \<le> k" using lt word8_pred by simp
      then show "ident\<lparr>ID := ID ident + 1, ID := k\<rparr> \<in> set (identifiers_of st (ntask_list st))"
        using "1.prems"(2)[of k] \<open>k < 255\<close> by simp
    qed
    show ?thesis
      using lt tk rec "1.prems"(1)
      by (subst getIDnotTaken_loop.simps) (simp add: isIDTaken_live)
  qed
qed

lemma NTask_ctor_finds:
  assumes "directory_live st" and "1 \<le> j" and "j < 255"
    and "\<lparr>type = ntype, ID = j\<rparr> \<notin> set (identifiers_of st (ntask_list st))"
    and "\<And>k. 1 \<le> k \<Longrightarrow> k < j \<Longrightarrow> \<lparr>type = ntype, ID = k\<rparr> \<in> set (identifiers_of st (ntask_list st))"
  shows "NTask_ctor this ntype taskName stackSize priority coreId notification_queue_size st =
     Returns ()
       (st\<lparr>actors := (actors st)(this \<mapsto>
              new_NTask ntype taskName stackSize priority coreId notification_queue_size j),
           ntask_list := ntask_list st @ [this]\<rparr>)"
proof -
  have "getIDnotTaken \<lparr>type = ntype, ID = 0\<rparr> st = Returns j st"
    unfolding getIDnotTaken_def
    by (rule getIDnotTaken_loop_finds) (use assms in \<open>simp_all add: NTASK_ID_STARTING_def\<close>)
  then show ?thesis
    by (simp add: NTask_ctor_def Task_ctor_def setCore_def new_NTask_def)
qed

lemma NTask_ctor_exhausted:
  assumes "directory_live st"
    and "\<And>k. 1 \<le> k \<Longrightarrow> k < 255 \<Longrightarrow> \<lparr>type = ntype, ID = k\<rparr> \<in> set (identifiers_of st (ntask_list st))"
  shows "NTask_ctor this ntype taskName stackSize priority coreId notification_queue_size st =
     Returns ()
       (st\<lparr>actors := (actors st)(this \<mapsto>
              new_NTask ntype taskName stackSize priority coreId notification_queue_size 255),
           ntask_list := ntask_list st @ [this],
           trace := trace st @ [EvLogE NTASK_LOG_TAG ''Can't assign other peripheral ID because all ID are taken'']\<rparr>)"
proof -
  have "getIDnotTaken \<lparr>type = ntype, ID = 0\<rparr> st =
     Returns 255 (ESP_LOGE NTASK_LOG_TAG ''Can't assign other peripheral ID because all ID are taken'' st)"
    unfolding getIDnotTaken_def
    by (rule getIDnotTaken_loop_exhausted) (use assms in \<open>simp_all add: NTASK_ID_STARTING_def\<close>)
  then show ?thesis
    by (simp add: NTask_ctor_def Task_ctor_def setCore_def new_NTask_def ESP_LOGE_def emit_def)
qed

section \<open>The scenarios are reached by the constructors\<close>

lemma RTask_ctor_boot: "RTask_ctor 1 0 ''Task'' 10000 2 0 8 128 boot = Returns () one_rtask"
  by (simp add: RTask_ctor_def NTask_ctor_def getIDnotTaken_def getIDnotTaken_loop.simps
      isIDTaken_def Task_ctor_def setCore_def boot_def one_rtask_def an_RTask_def new_NTask_def
      NTASK_ID_STARTING_def)

lemma WorkQueue_ctor_one_rtask:
  "WorkQueue_ctor 2 5000 3 3 coreID one_rtask = Returns () with_queue"
  by (simp add: WorkQueue_ctor_def RTask_ctor_def NTask_ctor_def getIDnotTaken_def
      getIDnotTaken_loop.simps isIDTaken_def Task_ctor_def setCore_def boot_def one_rtask_def
      an_RTask_def new_NTask_def NTASK_ID_STARTING_def with_queue_def a_WorkQueue_def
      sizeof_WorkItem_def w_id_eq_iff NTASK_TYPE_NOTIF_WORK_QUEU_def)

lemma directory_live_one_rtask: "directory_live one_rtask"
  by (simp add: directory_live_def one_rtask_def)

section \<open>Sends to a null pointer\<close>

text \<open>
  C7, the part that fails. The claim: every send, the two interrupt-context variants
  among them, returns failure on a null destination, without aborting. The two
  interrupt-context sends read the queue through the destination with no test, so on
  \<open>nullptr\<close> they do not return: the read goes through the null pointer.
\<close>

theorem isr_sends_read_through_nullptr:
  "sendNotificationFromIsrTo None notif_value' st = Stops BadPointer st \<and>
   sendNotificationToFrontFromIsrTo None notif_value' st = Stops BadPointer st"
  by (simp add: sendNotificationFromIsrTo_def sendNotificationToFrontFromIsrTo_def)

text \<open>
  The sibling paths do test: \<open>sendNotificationTo\<close> and \<open>sendDataTo\<close> return failure
  and leave the state as it is, on a null destination and on a null payload.
\<close>

lemma checked_sends_nullptr:
  "sendNotificationTo None notif ticktowait pos st = Returns False st \<and>
   sendDataTo None data' size' ticktowait usenotif notif st = Returns False st \<and>
   sendDataTo destination None size' ticktowait usenotif notif st = Returns False st"
  by (simp add: sendNotificationTo_def sendDataTo_def split: option.splits)

section \<open>Receiving a notification\<close>

text \<open>
  C9. A call of \<open>receiveNotification\<close> on an empty mailbox with a finite timeout (zero
  among them) is the wait that expires with nothing dequeued: the call returns, what it
  returns has the raw word 0, and the state changes by the record of the call only.
\<close>

theorem receiveNotification_expired:
  assumes "actors st this = Some t"
    and "q_items (notification_queue t) = []"
    and "ticktowait \<noteq> portMAX_DELAY"
  shows "\<exists>notif. receiveNotification this ticktowait st =
           Returns notif (emit (EvQueueReceive this ticktowait Expired) st) \<and> d0 notif = 0"
proof -
  have "t\<lparr>notification_queue := notification_queue t\<rparr> = t" by simp
  then have "(actors st)(this \<mapsto> t\<lparr>notification_queue := notification_queue t\<rparr>) = actors st"
    using assms(1) by (simp add: fun_upd_idem)
  moreover have "d0 (of_d0 0) = 0"
    by (simp add: d0_def of_d0_def w_id_def of_w_id_def)
  ultimately show ?thesis
    using assms by (simp add: receiveNotification_def xQueueReceive_def)
qed

theorem receiveNotification_expired_witness:
  "mailbox one_rtask 1 = [] \<and>
   (\<exists>notif. receiveNotification 1 0 one_rtask =
      Returns notif (emit (EvQueueReceive 1 0 Expired) one_rtask) \<and> d0 notif = 0)"
  using receiveNotification_expired [of one_rtask 1 "an_RTask 1" 0]
  by (simp add: one_rtask_def an_RTask_def new_NTask_def xQueueCreate_def portMAX_DELAY_def
      mailbox_def)

section \<open>The core of a work queue\<close>

lemma getIDnotTaken_loop_returns:
  "directory_live st \<Longrightarrow> \<exists>i st'. getIDnotTaken_loop ident st = Returns i st'"
proof (induction ident st rule: getIDnotTaken_loop.induct)
  case (1 ident st)
  show ?case
  proof (cases "ID ident < 255")
    case False
    then show ?thesis
      by (subst getIDnotTaken_loop.simps) simp
  next
    case lt: True
    show ?thesis
    proof (cases "ident \<in> set (identifiers_of st (ntask_list st))")
      case False
      then show ?thesis
        using lt "1.prems" by (subst getIDnotTaken_loop.simps) (simp add: isIDTaken_live)
    next
      case True
      then have "isIDTaken ident st = Returns True st"
        using "1.prems" by (simp add: isIDTaken_live)
      moreover from this
      have "\<exists>i st'. getIDnotTaken_loop (ident\<lparr>ID := ID ident + 1\<rparr>) st = Returns i st'"
        using "1.IH" [OF lt _ _ "1.prems"] by simp
      ultimately show ?thesis
        using lt by (subst getIDnotTaken_loop.simps) simp
    qed
  qed
qed

lemma NTask_ctor_returns:
  assumes "directory_live st"
  shows "\<exists>st'. NTask_ctor this ntype taskName stackSize priority coreId notification_queue_size st =
           Returns () st' \<and> actors st' this \<noteq> None"
proof -
  obtain i st1 where "getIDnotTaken \<lparr>type = ntype, ID = 0\<rparr> st = Returns i st1"
    using getIDnotTaken_loop_returns [OF assms, of "\<lparr>type = ntype, ID = NTASK_ID_STARTING\<rparr>"]
    by (auto simp: getIDnotTaken_def)
  then show ?thesis
    by (simp add: NTask_ctor_def Task_ctor_def setCore_def Let_def)
qed

lemma WorkQueue_ctor_core:
  assumes "WorkQueue_ctor this stackSize priority workQueueLength coreID st = Returns u st'"
  shows "map_option m_coreId (actors st' this) = Some 0"
  using assms
  by (auto simp: WorkQueue_ctor_def RTask_ctor_def NTask_ctor_def Task_ctor_def setCore_def Let_def
      split: outcome.splits if_splits option.splits)

text \<open>
  C10. Whatever \<open>coreID\<close> the constructor of \<open>WorkQueue\<close> is given, it builds the work
  queue (when the directory is sound and the queue has a length) and the object it
  leaves at \<open>this\<close> has the core 0: the parameter is not passed on.
\<close>

theorem WorkQueue_ctor_core_is_zero:
  assumes "directory_live st" and "workQueueLength \<noteq> 0"
  shows "\<exists>st'. WorkQueue_ctor this stackSize priority workQueueLength coreID st = Returns () st' \<and>
               map_option m_coreId (actors st' this) = Some 0"
proof -
  obtain st1 where c: "NTask_ctor this NTASK_TYPE_NOTIF_WORK_QUEU ''workQueue'' stackSize priority 0
      workQueueLength st = Returns () st1" and l: "actors st1 this \<noteq> None"
    using NTask_ctor_returns [OF assms(1)] by blast
  have "0 < unat workQueueLength"
    using assms(2) by (simp add: unat_gt_0)
  then have "\<exists>st'. WorkQueue_ctor this stackSize priority workQueueLength coreID st = Returns () st'"
    using c l by (auto simp: WorkQueue_ctor_def RTask_ctor_def sizeof_WorkItem_def)
  then show ?thesis
    using WorkQueue_ctor_core by blast
qed

theorem WorkQueue_ctor_core_is_zero_witness:
  "\<exists>st'. WorkQueue_ctor 2 5000 3 3 1 one_rtask = Returns () st' \<and>
         map_option m_coreId (actors st' 2) = Some 0"
  using WorkQueue_ctor_core_is_zero [of one_rtask 3 2 5000 3 1] directory_live_one_rtask
  by simp

section \<open>sendDataTo: the lock, the push and the notification\<close>

lemmas send_defs = sendDataTo_def take_mutex_receiving_buff_def send_receiving_buff_def
  give_mutex_receiving_buff_def sendNotificationTo_def xSemaphoreTake_def emit_def ESP_LOGE_def

lemma xRingbufferSend_finite:
  "ticktowait \<noteq> portMAX_DELAY \<Longrightarrow> fst (xRingbufferSend rb pvItem n ticktowait) \<noteq> Forever"
  by (simp add: xRingbufferSend_def)

text \<open>
  C5. A call of \<open>sendDataTo\<close> with a notification, to an \<open>RTask\<close> whose mutex is free
  (the call acquires it). The push into the ring buffer is made with the timeout of the
  caller, and with a finite timeout it never waits forever. The notification is sent with
  \<open>portMAX_DELAY\<close> whatever that timeout is: when the mailbox is full the call waits in
  this send and never returns, with a timeout of zero as with any other.
\<close>

theorem sendDataTo_notification_leg:
  assumes "actors st d = Some t" and "rtask t = Some r" and "\<not> mutex_receiving_buff r"
  shows "let w = fst (xRingbufferSend (receiving_buff r) dat n ticktowait);
             pushed = [EvSemaphoreTake d ticktowait Done, EvRingbufferSend d n ticktowait w]
         in (ticktowait \<noteq> portMAX_DELAY \<longrightarrow> w \<noteq> Forever) \<and>
            (if w = Forever
             then \<exists>st'. sendDataTo (Some d) (Some dat) n ticktowait True notif st =
                          Stops WaitsForever st' \<and> trace st' = trace st @ pushed
             else if length (q_items (notification_queue t)) < uxLength (notification_queue t)
             then \<exists>st'. sendDataTo (Some d) (Some dat) n ticktowait True notif st =
                          Returns (w = Done) st' \<and>
                        trace st' = trace st @ pushed @
                          [EvQueueSend d notif portMAX_DELAY queueSEND_TO_BACK Done,
                           EvSemaphoreGive d]
             else \<exists>st'. sendDataTo (Some d) (Some dat) n ticktowait True notif st =
                          Stops WaitsForever st' \<and>
                        trace st' = trace st @ pushed @
                          [EvQueueSend d notif portMAX_DELAY queueSEND_TO_BACK Forever])"
proof -
  obtain w rb' where x: "xRingbufferSend (receiving_buff r) dat n ticktowait = (w, rb')"
    by (cases "xRingbufferSend (receiving_buff r) dat n ticktowait")
  have fin: "ticktowait \<noteq> portMAX_DELAY \<longrightarrow> w \<noteq> Forever"
    using xRingbufferSend_finite[of ticktowait "receiving_buff r" dat n] x by simp
  show ?thesis
    using assms x fin
    by (simp add: send_defs xQueueGenericSend_def Let_def)
qed

theorem sendDataTo_notification_leg_witness:
  "mailbox one_rtask_mailbox_full 1 = replicate 8 (NOTIFICATION_FROM_ISR 3) \<and>
   \<not> mutex_held one_rtask_mailbox_full 1 \<and>
   (\<exists>st'. sendDataTo (Some 1) (Some (Bytes [7])) 1 0 True (NOTIFICATION_FROM_ISR 5)
            one_rtask_mailbox_full = Stops WaitsForever st' \<and>
          trace st' = [EvSemaphoreTake 1 0 Done, EvRingbufferSend 1 1 0 Done,
                       EvQueueSend 1 (NOTIFICATION_FROM_ISR 5) portMAX_DELAY queueSEND_TO_BACK Forever])"
  using sendDataTo_notification_leg
    [of one_rtask_mailbox_full 1
        "(an_RTask 1)\<lparr>notification_queue :=
                         \<lparr>q_items = replicate 8 (NOTIFICATION_FROM_ISR 3), uxLength = 8\<rparr>\<rparr>"
        "\<lparr>receiving_buff = xRingbufferCreate 128, mutex_receiving_buff = False\<rparr>"
        "Bytes [7]" 1 0 "NOTIFICATION_FROM_ISR 5"]
  by (simp add: one_rtask_mailbox_full_def an_RTask_def new_NTask_def boot_def
      xRingbufferSend_def xRingbufferCreate_def rb_used_def portMAX_DELAY_def mailbox_def
      mutex_held_def)

text \<open>
  C8. A call of \<open>sendDataTo\<close> to an \<open>RTask\<close>. When the mutex is held and the timeout is
  finite, the lock is not acquired in time: the call returns failure, logs an error, and
  the state changes by the two trace entries only (no object changes). When the mutex is
  free, a call that returns has taken it once, first, and given it once, last, and
  leaves it free.
\<close>

theorem sendDataTo_lock:
  assumes "actors st d = Some t" and "rtask t = Some r"
  shows "(mutex_receiving_buff r \<and> ticktowait \<noteq> portMAX_DELAY \<longrightarrow>
            sendDataTo (Some d) (Some dat) n ticktowait usenotif notif st =
              Returns False
                (st\<lparr>trace := trace st @
                      [EvSemaphoreTake d ticktowait Expired,
                       EvLogE RTASK_LOG_TAG
                         (''Unable to take RingBuffer Semaphore of RTask '' @ m_taskName t)]\<rparr>)) \<and>
         (\<not> mutex_receiving_buff r \<longrightarrow>
            (\<forall>res st'. sendDataTo (Some d) (Some dat) n ticktowait usenotif notif st = Returns res st' \<longrightarrow>
               (\<exists>w. trace st' = trace st @
                  [EvSemaphoreTake d ticktowait Done, EvRingbufferSend d n ticktowait w] @
                  (if usenotif then [EvQueueSend d notif portMAX_DELAY queueSEND_TO_BACK Done]
                   else []) @
                  [EvSemaphoreGive d]) \<and>
               \<not> mutex_held st' d))"
proof (intro conjI impI allI)
  assume h: "mutex_receiving_buff r \<and> ticktowait \<noteq> portMAX_DELAY"
  have "r\<lparr>mutex_receiving_buff := True\<rparr> = r" using h by simp
  then have "t\<lparr>rtask := Some (r\<lparr>mutex_receiving_buff := True\<rparr>)\<rparr> = t"
    using assms(2) by simp
  then have "(actors st)(d \<mapsto> t\<lparr>rtask := Some (r\<lparr>mutex_receiving_buff := True\<rparr>)\<rparr>) = actors st"
    using assms(1) by (simp add: fun_upd_idem)
  then show "sendDataTo (Some d) (Some dat) n ticktowait usenotif notif st =
              Returns False
                (st\<lparr>trace := trace st @
                      [EvSemaphoreTake d ticktowait Expired,
                       EvLogE RTASK_LOG_TAG
                         (''Unable to take RingBuffer Semaphore of RTask '' @ m_taskName t)]\<rparr>)"
    using assms h by (simp add: send_defs)
next
  fix res st'
  assume free: "\<not> mutex_receiving_buff r"
    and ret: "sendDataTo (Some d) (Some dat) n ticktowait usenotif notif st = Returns res st'"
  obtain w rb' where x: "xRingbufferSend (receiving_buff r) dat n ticktowait = (w, rb')"
    by (cases "xRingbufferSend (receiving_buff r) dat n ticktowait")
  show "\<exists>w. trace st' = trace st @
                  [EvSemaphoreTake d ticktowait Done, EvRingbufferSend d n ticktowait w] @
                  (if usenotif then [EvQueueSend d notif portMAX_DELAY queueSEND_TO_BACK Done]
                   else []) @
                  [EvSemaphoreGive d]"
    using assms free ret x
    by (auto simp: send_defs xQueueGenericSend_def Let_def split: if_splits)
  show "\<not> mutex_held st' d"
    using assms free ret x
    by (auto simp: send_defs xQueueGenericSend_def Let_def mutex_held_def split: if_splits)
qed

theorem sendDataTo_lock_witness:
  "mutex_held one_rtask_locked 1 \<and>
   sendDataTo (Some 1) (Some (Bytes [7])) 1 0 True (NOTIFICATION_FROM_ISR 5) one_rtask_locked =
     Returns False
       (one_rtask_locked\<lparr>trace :=
          [EvSemaphoreTake 1 0 Expired,
           EvLogE RTASK_LOG_TAG ''Unable to take RingBuffer Semaphore of RTask Task'']\<rparr>) \<and>
   \<not> mutex_held one_rtask 1 \<and>
   (\<exists>st'. sendDataTo (Some 1) (Some (Bytes [7])) 1 0 True (NOTIFICATION_FROM_ISR 5) one_rtask =
            Returns True st' \<and>
          trace st' = [EvSemaphoreTake 1 0 Done, EvRingbufferSend 1 1 0 Done,
                       EvQueueSend 1 (NOTIFICATION_FROM_ISR 5) portMAX_DELAY queueSEND_TO_BACK Done,
                       EvSemaphoreGive 1] \<and>
          \<not> mutex_held st' 1)"
proof -
  have a: "sendDataTo (Some 1) (Some (Bytes [7])) 1 0 True (NOTIFICATION_FROM_ISR 5) one_rtask_locked =
     Returns False
       (one_rtask_locked\<lparr>trace :=
          [EvSemaphoreTake 1 0 Expired,
           EvLogE RTASK_LOG_TAG ''Unable to take RingBuffer Semaphore of RTask Task'']\<rparr>)"
    using sendDataTo_lock
      [of one_rtask_locked 1
          "(an_RTask 1)\<lparr>rtask := Some \<lparr>receiving_buff = xRingbufferCreate 128,
                                        mutex_receiving_buff = True\<rparr>\<rparr>"
          "\<lparr>receiving_buff = xRingbufferCreate 128, mutex_receiving_buff = True\<rparr>"
          0 "Bytes [7]" 1 True "NOTIFICATION_FROM_ISR 5"]
    by (simp add: one_rtask_locked_def an_RTask_def new_NTask_def boot_def portMAX_DELAY_def)
  obtain st' where r: "sendDataTo (Some 1) (Some (Bytes [7])) 1 0 True (NOTIFICATION_FROM_ISR 5)
      one_rtask = Returns True st'"
    by (simp add: send_defs one_rtask_def an_RTask_def new_NTask_def boot_def portMAX_DELAY_def
        xRingbufferSend_def xRingbufferCreate_def rb_used_def xQueueGenericSend_def
        xQueueCreate_def)
  have b: "trace st' = [EvSemaphoreTake 1 0 Done, EvRingbufferSend 1 1 0 Done,
                       EvQueueSend 1 (NOTIFICATION_FROM_ISR 5) portMAX_DELAY queueSEND_TO_BACK Done,
                       EvSemaphoreGive 1] \<and> \<not> mutex_held st' 1"
    using sendDataTo_lock
      [of one_rtask 1 "an_RTask 1"
          "\<lparr>receiving_buff = xRingbufferCreate 128, mutex_receiving_buff = False\<rparr>"
          0 "Bytes [7]" 1 True "NOTIFICATION_FROM_ISR 5"] r
    by (auto simp: one_rtask_def an_RTask_def new_NTask_def boot_def send_defs
        xRingbufferSend_def xRingbufferCreate_def rb_used_def xQueueGenericSend_def
        xQueueCreate_def portMAX_DELAY_def)
  show ?thesis
    using a b r
    by (simp add: mutex_held_def one_rtask_locked_def one_rtask_def an_RTask_def new_NTask_def)
qed


section \<open>A notification for a payload that was not enqueued\<close>

lemmas scenario_defs = with_queue_def one_rtask_def boot_def an_RTask_def a_WorkQueue_def
  new_NTask_def xQueueCreate_def xRingbufferCreate_def

lemmas kernel_defs = xQueueGenericSend_def xQueueReceive_def xRingbufferSend_def
  xRingbufferReceive_def vRingbufferReturnItem_def rb_used_def portMAX_DELAY_def

lemmas reading_defs = mailbox_def ring_def borrowed_def mutex_held_def

text \<open>
  C1, where it fails. The claim: a notification is never sent for a payload that was not
  enqueued, so a receiver woken by the notification finds the payload. \<open>sendDataTo\<close>
  sends the notification whatever the push returned. Here a payload of 200 bytes goes
  to an \<open>RTask\<close> whose ring buffer has 128, with timeout 0: the push fails, the call
  returns failure, and the notification is in the mailbox all the same. The receiver
  takes the notification and finds the ring buffer empty.
\<close>

theorem sendDataTo_notifies_unpushed_payload:
  "\<exists>st1 st2 st3.
     sendDataTo (Some 1) (Some (Bytes (replicate 200 0))) 200 0 True
       \<lparr>Identifier = \<lparr>type = 0, ID = 1\<rparr>, nvalue = 7\<rparr> one_rtask = Returns False st1 \<and>
     trace st1 =
       [EvSemaphoreTake 1 0 Done, EvRingbufferSend 1 200 0 Refused,
        EvQueueSend 1 \<lparr>Identifier = \<lparr>type = 0, ID = 1\<rparr>, nvalue = 7\<rparr> portMAX_DELAY
          queueSEND_TO_BACK Done,
        EvSemaphoreGive 1] \<and>
     mailbox st1 1 = [\<lparr>Identifier = \<lparr>type = 0, ID = 1\<rparr>, nvalue = 7\<rparr>] \<and>
     ring st1 1 = [] \<and>
     receiveNotification 1 0 st1 =
       Returns \<lparr>Identifier = \<lparr>type = 0, ID = 1\<rparr>, nvalue = 7\<rparr> st2 \<and>
     receiveData 1 0 st2 = Returns None st3"
  by (simp add: send_defs receiveNotification_def receiveData_def scenario_defs kernel_defs
      reading_defs)

text \<open>
  The same with a payload that fits the buffer but finds it full: the push runs out of
  its timeout, and the notification is sent.
\<close>

lemma sendDataTo_notifies_when_buffer_full:
  "\<exists>st1 st2.
     sendDataTo (Some 1) (Some (Bytes (replicate 100 1))) 100 10 True
       \<lparr>Identifier = \<lparr>type = 0, ID = 1\<rparr>, nvalue = 7\<rparr> one_rtask = Returns True st1 \<and>
     sendDataTo (Some 1) (Some (Bytes (replicate 100 2))) 100 10 True
       \<lparr>Identifier = \<lparr>type = 0, ID = 1\<rparr>, nvalue = 8\<rparr> st1 = Returns False st2 \<and>
     trace st2 = trace st1 @
       [EvSemaphoreTake 1 10 Done, EvRingbufferSend 1 100 10 Expired,
        EvQueueSend 1 \<lparr>Identifier = \<lparr>type = 0, ID = 1\<rparr>, nvalue = 8\<rparr> portMAX_DELAY
          queueSEND_TO_BACK Done,
        EvSemaphoreGive 1] \<and>
     length (ring st2 1) = 1 \<and> length (mailbox st2 1) = 2"
  by (simp add: send_defs scenario_defs kernel_defs reading_defs)


section \<open>The work queue\<close>

text \<open>
  C2, where it fails. The claim: a job submitted with \<open>sendWork\<close> is run once by the loop
  and its reply target is answered. \<open>sendWork\<close> builds its notification by the raw word,
  \<open>d0 = NOTIFICATION_WORK_IN_QUEUE\<close>: that sets the sender's \<open>type\<close> to 1 and leaves the
  value 0. The loop compares the value with \<open>NOTIFICATION_WORK_IN_QUEUE\<close>, so it logs an
  invalid notification and goes on: the function is not called, the descriptor stays in
  the ring buffer, and the reply target gets nothing.
\<close>

theorem sendWork_job_is_not_run:
  "\<exists>st1 st2.
     sendWork 2 job_21 with_queue = Returns True st1 \<and>
     mailbox st1 2 = [\<lparr>Identifier = \<lparr>type = 1, ID = 0\<rparr>, nvalue = 0\<rparr>] \<and>
     ring st1 2 = [(Descriptor job_21, 16)] \<and>
     run_iteration 2 st1 = Returns () st2 \<and>
     trace st2 = trace st1 @
       [EvQueueReceive 2 portMAX_DELAY Done,
        EvLogE WORKQ_LOG_TAG ''%X : Invalide notif received from %X:%X''] \<and>
     ring st2 2 = [(Descriptor job_21, 16)] \<and>
     mailbox st2 1 = [] \<and> ring st2 1 = []"
  by (simp add: sendWork_def run_iteration_def send_defs receiveNotification_def receiveData_def
      scenario_defs kernel_defs reading_defs of_d0_def of_w_id_def NOTIFICATION_WORK_IN_QUEUE_def
      sizeof_WorkItem_def)

text \<open>
  The loop itself serves a job whose notification carries the value
  \<open>NOTIFICATION_WORK_IN_QUEUE\<close>: it returns the item, calls the function once, sends the
  result and the notification to the reply target, and frees the result.
\<close>

lemma twice_21: "twice (Some [21, 0, 0, 0]) n = (Some [42, 0, 0, 0], 4)"
  by (simp add: twice_def word_cat_eq)

lemma run_iteration_serves_job:
  "\<exists>st1 st2.
     sendDataTo (Some 2) (Some (Descriptor job_21)) sizeof_WorkItem 0 True
       \<lparr>Identifier = \<lparr>type = 0, ID = 1\<rparr>, nvalue = NOTIFICATION_WORK_IN_QUEUE\<rparr> with_queue =
       Returns True st1 \<and>
     run_iteration 2 st1 = Returns () st2 \<and>
     trace st2 = trace st1 @
       [EvQueueReceive 2 portMAX_DELAY Done, EvRingbufferReceive 2 portMAX_DELAY Done,
        EvRingbufferReturnItem 2, EvWorkFunction (Some [21, 0, 0, 0]),
        EvSemaphoreTake 1 portMAX_DELAY Done, EvRingbufferSend 1 4 portMAX_DELAY Done,
        EvQueueSend 1 \<lparr>Identifier = \<lparr>type = NTASK_TYPE_NOTIF_WORK_QUEU, ID = 1\<rparr>, nvalue = 7\<rparr>
          portMAX_DELAY queueSEND_TO_BACK Done,
        EvSemaphoreGive 1, EvFree [42, 0, 0, 0]] \<and>
     mailbox st2 1 = [\<lparr>Identifier = \<lparr>type = NTASK_TYPE_NOTIF_WORK_QUEU, ID = 1\<rparr>, nvalue = 7\<rparr>] \<and>
     ring st2 1 = [(Bytes [42, 0, 0, 0], 4)] \<and>
     borrowed st2 2 = [] \<and> ring st2 2 = []"
  by (simp add: run_iteration_def send_defs receiveNotification_def receiveData_def returnData_def
      scenario_defs kernel_defs reading_defs NOTIFICATION_WORK_IN_QUEUE_def sizeof_WorkItem_def
      job_21_def twice_21 TO_NOTIFICATION_def free_def)


text \<open>
  C6, where it fails. The claim: on a payload of the wrong size the loop logs the error
  and returns the borrowed item. The branch for the wrong size only logs: the item was
  received and is never returned, so it stays borrowed and keeps its space in the ring
  buffer.
\<close>

theorem run_iteration_wrong_size_not_returned:
  "\<exists>st1 st2.
     sendDataTo (Some 2) (Some (Bytes [1, 2, 3, 4])) 4 0 True
       \<lparr>Identifier = \<lparr>type = 0, ID = 1\<rparr>, nvalue = NOTIFICATION_WORK_IN_QUEUE\<rparr> with_queue =
       Returns True st1 \<and>
     ring st1 2 = [(Bytes [1, 2, 3, 4], 4)] \<and>
     run_iteration 2 st1 = Returns () st2 \<and>
     trace st2 = trace st1 @
       [EvQueueReceive 2 portMAX_DELAY Done, EvRingbufferReceive 2 portMAX_DELAY Done,
        EvLogE WORKQ_LOG_TAG
          ''%X : Invalide size of received WorkItem from %X:%X : %db instead of %db''] \<and>
     ring st2 2 = [] \<and>
     borrowed st2 2 = [(Bytes [1, 2, 3, 4], 4)]"
  by (simp add: run_iteration_def send_defs receiveNotification_def receiveData_def
      scenario_defs kernel_defs reading_defs NOTIFICATION_WORK_IN_QUEUE_def sizeof_WorkItem_def)


text \<open>
  After five such payloads the items that were never returned fill the ring buffer of the
  work queue (72 bytes), and a job descriptor no longer fits.
\<close>

lemma wrong_sizes_fill_the_buffer:
  "\<exists>st st'.
     wrong_sizes 5 with_queue = Returns () st \<and>
     length (borrowed st 2) = 5 \<and>
     ring st 2 = [] \<and>
     sendDataTo (Some 2) (Some (Descriptor job_21)) sizeof_WorkItem 0 True
       \<lparr>Identifier = \<lparr>type = 0, ID = 1\<rparr>, nvalue = NOTIFICATION_WORK_IN_QUEUE\<rparr> st =
       Returns False st' \<and>
     ring st' 2 = []"
proof -
  have "wrong_sizes 5 = wrong_sizes (Suc (Suc (Suc (Suc (Suc 0)))))"
    by (simp add: eval_nat_numeral)
  then show ?thesis
    by (simp add: run_iteration_def send_defs receiveNotification_def
        receiveData_def scenario_defs kernel_defs reading_defs NOTIFICATION_WORK_IN_QUEUE_def
        sizeof_WorkItem_def)
qed

section \<open>Constructions past the last id\<close>

lemma construct_all_append:
  "construct_all ntype (ps @ qs) st =
     (case construct_all ntype ps st of
        Stops e st' \<Rightarrow> Stops e st'
      | Returns u st' \<Rightarrow> construct_all ntype qs st')"
  by (induction ps arbitrary: st) (auto split: outcome.splits)

lemma identifiers_of_snoc:
  "identifiers_of st (ps @ [p]) =
     identifiers_of st ps @ (case identifier_at st p of None \<Rightarrow> [] | Some i \<Rightarrow> [i])"
  by (simp add: identifiers_of_def List.map_filter_def split: option.splits)

lemma identifiers_of_cong:
  "(\<And>p. p \<in> set ps \<Longrightarrow> actors st' p = actors st p) \<Longrightarrow>
   identifiers_of st' ps = identifiers_of st ps"
  by (induction ps)
    (auto simp: identifiers_of_def List.map_filter_simps identifier_at_def split: option.splits)

lemma identifiers_of_lined_up:
  "m \<le> n \<Longrightarrow> identifiers_of (lined_up ntype n) [0..<m] =
     map (\<lambda>p. \<lparr>type = ntype, ID = of_nat (Suc p)\<rparr>) [0..<m]"
proof (induction m)
  case 0
  then show ?case by (simp add: identifiers_of_def List.map_filter_simps)
next
  case (Suc m)
  then show ?case
    by (simp add: identifiers_of_snoc identifier_at_def lined_up_def new_NTask_def)
qed

lemma directory_live_lined_up: "directory_live (lined_up ntype n)"
  by (simp add: directory_live_def lined_up_def list_all_iff)

lemma id_in_lined_up:
  assumes "n \<le> 254"
  shows "\<lparr>type = ntype, ID = k\<rparr> \<in> set (identifiers_of (lined_up ntype n) (ntask_list (lined_up ntype n)))
         \<longleftrightarrow> 1 \<le> unat k \<and> unat k \<le> n"
proof -
  have l: "ntask_list (lined_up ntype n) = [0..<n]" by (simp add: lined_up_def)
  have "(\<exists>p<n. k = (of_nat (Suc p) :: 8 word)) \<longleftrightarrow> 1 \<le> unat k \<and> unat k \<le> n"
  proof
    assume "\<exists>p<n. k = (of_nat (Suc p) :: 8 word)"
    then obtain p where p: "p < n" "k = of_nat (Suc p)" by blast
    then have "unat k = Suc p"
      using assms by (simp add: unat_of_nat del: of_nat_Suc)
    then show "1 \<le> unat k \<and> unat k \<le> n" using p by simp
  next
    assume h: "1 \<le> unat k \<and> unat k \<le> n"
    then have "unat k - 1 < n" "k = of_nat (Suc (unat k - 1))" by auto
    then show "\<exists>p<n. k = (of_nat (Suc p) :: 8 word)" by blast
  qed
  then show ?thesis
    by (auto simp: l identifiers_of_lined_up)
qed

lemma NTask_ctor_lined_up:
  assumes "n < 254"
  shows "NTask_ctor n ntype ''Task'' 10000 2 0 8 (lined_up ntype n) = Returns () (lined_up ntype (Suc n))"
proof -
  let ?j = "of_nat (Suc n) :: 8 word"
  have uj: "unat ?j = Suc n"
    using assms by (simp add: unat_of_nat del: of_nat_Suc)
  have n': "n \<le> 254" using assms by simp
  have "NTask_ctor n ntype ''Task'' 10000 2 0 8 (lined_up ntype n) =
     Returns ()
       ((lined_up ntype n)\<lparr>actors := (actors (lined_up ntype n))(n \<mapsto>
              new_NTask ntype ''Task'' 10000 2 0 8 ?j),
           ntask_list := ntask_list (lined_up ntype n) @ [n]\<rparr>)"
  proof (rule NTask_ctor_finds [OF directory_live_lined_up])
    show "1 \<le> ?j" using uj by (simp add: word_le_nat_alt del: of_nat_Suc)
    show "?j < 255" using uj assms by (simp add: word_less_nat_alt del: of_nat_Suc)
    show "\<lparr>type = ntype, ID = ?j\<rparr> \<notin> set (identifiers_of (lined_up ntype n) (ntask_list (lined_up ntype n)))"
      using uj by (simp add: id_in_lined_up [OF n'] del: of_nat_Suc)
    fix k :: "8 word" assume "1 \<le> k" "k < ?j"
    then have "1 \<le> unat k \<and> unat k \<le> n"
      using uj by (simp add: word_le_nat_alt word_less_nat_alt del: of_nat_Suc)
    then show "\<lparr>type = ntype, ID = k\<rparr> \<in> set (identifiers_of (lined_up ntype n) (ntask_list (lined_up ntype n)))"
      by (simp add: id_in_lined_up [OF n'])
  qed
  moreover have "(lined_up ntype n)\<lparr>actors := (actors (lined_up ntype n))(n \<mapsto>
              new_NTask ntype ''Task'' 10000 2 0 8 ?j),
           ntask_list := ntask_list (lined_up ntype n) @ [n]\<rparr> = lined_up ntype (Suc n)"
    by (auto simp: lined_up_def fun_eq_iff less_Suc_eq)
  ultimately show ?thesis by simp
qed

lemma construct_all_lined_up:
  "n \<le> 254 \<Longrightarrow> construct_all ntype [0..<n] boot = Returns () (lined_up ntype n)"
proof (induction n)
  case 0
  then show ?case by (simp add: lined_up_def boot_def)
next
  case (Suc n)
  then show ?case
    by (simp add: construct_all_append NTask_ctor_lined_up)
qed

lemma upt_256: "[0..<256] = [0..<254] @ [254, 255]"
proof -
  have "[0..<Suc (Suc n)] = [0..<n] @ [n, Suc n]" for n
    by simp
  from this [of 254] show ?thesis
    by simp
qed

lemma construct_all_256: "construct_all ntype [0..<256] boot = Returns () (crowded ntype)"
proof -
  let ?log = "EvLogE NTASK_LOG_TAG ''Can't assign other peripheral ID because all ID are taken''"
  let ?new = "new_NTask ntype ''Task'' 10000 2 0 8 255"
  let ?S254 = "lined_up ntype 254"
  let ?S255 = "?S254\<lparr>actors := (actors ?S254)(254 \<mapsto> ?new),
                     ntask_list := ntask_list ?S254 @ [254],
                     trace := trace ?S254 @ [?log]\<rparr>"
  let ?S256 = "?S255\<lparr>actors := (actors ?S255)(255 \<mapsto> ?new),
                     ntask_list := ntask_list ?S255 @ [255],
                     trace := trace ?S255 @ [?log]\<rparr>"
  have all254: "\<lparr>type = ntype, ID = k\<rparr> \<in> set (identifiers_of ?S254 (ntask_list ?S254))"
    if "1 \<le> k" "k < 255" for k :: "8 word"
  proof -
    have "1 \<le> unat k \<and> unat k \<le> 254"
      using that by (simp add: word_le_nat_alt word_less_nat_alt)
    then show ?thesis by (simp add: id_in_lined_up)
  qed
  have s1: "NTask_ctor 254 ntype ''Task'' 10000 2 0 8 ?S254 = Returns () ?S255"
    by (rule NTask_ctor_exhausted [OF directory_live_lined_up all254])
  have live255: "directory_live ?S255"
    by (simp add: directory_live_def lined_up_def list_all_iff)
  have "identifiers_of ?S255 [0..<254] = identifiers_of ?S254 [0..<254]"
    by (rule identifiers_of_cong) simp
  then have sub: "set (identifiers_of ?S254 (ntask_list ?S254))
      \<subseteq> set (identifiers_of ?S255 (ntask_list ?S255))"
    by (simp add: identifiers_of_snoc lined_up_def)
  have s2: "NTask_ctor 255 ntype ''Task'' 10000 2 0 8 ?S255 = Returns () ?S256"
    by (rule NTask_ctor_exhausted [OF live255]) (use all254 sub in blast)
  have "?S256 = crowded ntype"
    by (auto simp: crowded_def lined_up_def boot_def fun_eq_iff upt_256)
  then show ?thesis
    using s1 s2 by (simp add: upt_256 construct_all_append construct_all_lined_up)
qed

lemma getNTaskByIdentifier_from_skip:
  "list_all (\<lambda>p. \<exists>t. actors st p = Some t \<and> ntask_identifier t \<noteq> ident) ps \<Longrightarrow>
   getNTaskByIdentifier_from ident (ps @ qs) st = getNTaskByIdentifier_from ident qs st"
  by (induction ps) (auto simp: w_id_eq_iff)

lemma erase_this_found:
  "this \<notin> set ps \<Longrightarrow> erase_this this (ps @ this # qs) = ps @ qs"
  by (induction ps) auto

lemma crowded_low_ids:
  "list_all (\<lambda>p. \<exists>t. actors (crowded ntype) p = Some t \<and>
                     ntask_identifier t \<noteq> \<lparr>type = ntype, ID = 255\<rparr>) [0..<254]"
proof -
  have "(of_nat (Suc p) :: 8 word) \<noteq> 255" if "p < 254" for p
  proof
    assume "(of_nat (Suc p) :: 8 word) = 255"
    then have "unat (of_nat (Suc p) :: 8 word) = 255" by simp
    then show False using that by (simp add: unat_of_nat del: of_nat_Suc)
  qed
  then show ?thesis
    by (simp add: list_all_iff crowded_def new_NTask_def del: of_nat_Suc)
qed

text \<open>
  C3, where it fails. The claim: the ids assigned to actors of one type are pairwise
  distinct, and once the ids are exhausted a construction fails rather than reuse an id.
  \<open>getIDnotTaken\<close> returns 255 when it finds no id, and the constructor stores what it
  is returned and appends the object to \<open>ntask_list\<close>. So the 255th and the 256th
  construction of one type both leave a live actor with the id 255.
\<close>

theorem construct_all_reuses_id:
  "\<exists>st. construct_all ntype [0..<256] boot = Returns () st \<and>
        ntask_list st = [0..<256] \<and>
        identifier_at st 254 = Some \<lparr>type = ntype, ID = 255\<rparr> \<and>
        identifier_at st 255 = Some \<lparr>type = ntype, ID = 255\<rparr>"
  by (simp add: construct_all_256 crowded_def identifier_at_def new_NTask_def)

text \<open>
  C4, where it fails. The claim: a lookup by the identifier of an actor returns that actor
  after its construction and none after its destruction. After 256 constructions of one
  type the lookup by the identifier of the last actor (at address 255) returns the actor
  before it (at address 254), which has the same identifier; and after the destruction of
  the last actor the lookup still returns that other actor, not none.
\<close>

theorem lookup_finds_other_actor:
  "\<exists>st st'. construct_all ntype [0..<256] boot = Returns () st \<and>
        identifier_at st 255 = Some \<lparr>type = ntype, ID = 255\<rparr> \<and>
        getNTaskByIdentifier \<lparr>type = ntype, ID = 255\<rparr> st = Returns (Some 254) st \<and>
        NTask_dtor 255 st = Returns () st' \<and>
        actors st' 255 = None \<and>
        getNTaskByIdentifier \<lparr>type = ntype, ID = 255\<rparr> st' = Returns (Some 254) st'"
proof -
  let ?st = "crowded ntype"
  let ?st' = "?st\<lparr>ntask_list := [0..<254] @ [254], actors := (actors ?st)(255 := None)\<rparr>"
  have l: "ntask_list ?st = [0..<254] @ [254, 255]"
    by (simp add: crowded_def upt_256)
  have a: "getNTaskByIdentifier \<lparr>type = ntype, ID = 255\<rparr> ?st = Returns (Some 254) ?st"
    unfolding getNTaskByIdentifier_def l
    by (subst getNTaskByIdentifier_from_skip [OF crowded_low_ids])
      (simp add: crowded_def new_NTask_def)
  have "erase_this 255 (([0..<254] @ [254]) @ 255 # []) = ([0..<254] @ [254]) @ []"
    by (rule erase_this_found) simp
  then have e: "erase_this 255 (ntask_list ?st) = [0..<254] @ [254]"
    by (simp add: l)
  obtain t where t: "actors ?st 255 = Some t"
    by (simp add: crowded_def)
  have d: "NTask_dtor 255 ?st = Returns () ?st'"
    by (simp add: NTask_dtor_def e t)
  have low': "list_all (\<lambda>p. \<exists>t. actors ?st' p = Some t \<and>
                     ntask_identifier t \<noteq> \<lparr>type = ntype, ID = 255\<rparr>) [0..<254]"
    using crowded_low_ids [of ntype] by (simp add: list_all_iff)
  have b: "getNTaskByIdentifier \<lparr>type = ntype, ID = 255\<rparr> ?st' = Returns (Some 254) ?st'"
    unfolding getNTaskByIdentifier_def
    by (simp add: getNTaskByIdentifier_from_skip [OF low']) (simp add: crowded_def new_NTask_def)
  show ?thesis
    using a d b
    by (simp add: construct_all_256) (simp add: crowded_def identifier_at_def new_NTask_def)
qed


section \<open>The directory while an id is free\<close>

lemma identifiers_of_live:
  "list_all (\<lambda>p. actors st p \<noteq> None) ps \<Longrightarrow>
   map Some (identifiers_of st ps) = map (identifier_at st) ps"
  by (induction ps)
    (auto simp: identifiers_of_def List.map_filter_simps identifier_at_def split: option.splits)

lemma others_differ:
  assumes "list_all (\<lambda>p. actors st p \<noteq> None) ps"
    and "ident \<notin> set (identifiers_of st ps)"
  shows "list_all (\<lambda>p. \<exists>t. actors st p = Some t \<and> ntask_identifier t \<noteq> ident) ps"
  using assms
  by (induction ps)
    (auto simp: identifiers_of_def List.map_filter_simps identifier_at_def split: option.splits)

lemma getNTaskByIdentifier_from_none:
  "list_all (\<lambda>p. \<exists>t. actors st p = Some t \<and> ntask_identifier t \<noteq> ident) ps \<Longrightarrow>
   getNTaskByIdentifier_from ident ps st =
     Returns None (ESP_LOGE NTASK_LOG_TAG ''Can't find Ntask corresponding to Type:ID %X:%X'' st)"
  using getNTaskByIdentifier_from_skip [of st ident ps "[]"] by simp

text \<open>
  While an id from 1 to 254 is free for the type, and \<open>this\<close> is not yet in the
  directory: the constructor assigns the first free id, the identifiers of the directory
  stay pairwise distinct, and the lookup by the new identifier returns the new actor.
\<close>

lemma NTask_ctor_consistent:
  assumes live: "directory_live st"
    and fresh: "this \<notin> set (ntask_list st)"
    and dist: "distinct (identifiers_of st (ntask_list st))"
    and j: "1 \<le> j" "j < 255"
    and free: "\<lparr>type = ntype, ID = j\<rparr> \<notin> set (identifiers_of st (ntask_list st))"
    and least: "\<And>k. 1 \<le> k \<Longrightarrow> k < j \<Longrightarrow>
                  \<lparr>type = ntype, ID = k\<rparr> \<in> set (identifiers_of st (ntask_list st))"
  shows "\<exists>st'. NTask_ctor this ntype taskName stackSize priority coreId notification_queue_size st =
                 Returns () st' \<and>
               identifier_at st' this = Some \<lparr>type = ntype, ID = j\<rparr> \<and>
               directory_live st' \<and>
               distinct (identifiers_of st' (ntask_list st')) \<and>
               getNTaskByIdentifier \<lparr>type = ntype, ID = j\<rparr> st' = Returns (Some this) st'"
proof -
  let ?new = "new_NTask ntype taskName stackSize priority coreId notification_queue_size j"
  let ?st' = "st\<lparr>actors := (actors st)(this \<mapsto> ?new), ntask_list := ntask_list st @ [this]\<rparr>"
  have c: "NTask_ctor this ntype taskName stackSize priority coreId notification_queue_size st =
             Returns () ?st'"
    by (rule NTask_ctor_finds [OF live j free least])
  have same: "identifiers_of ?st' (ntask_list st) = identifiers_of st (ntask_list st)"
    by (rule identifiers_of_cong) (use fresh in auto)
  have ids: "identifiers_of ?st' (ntask_list ?st') =
               identifiers_of st (ntask_list st) @ [\<lparr>type = ntype, ID = j\<rparr>]"
    by (simp add: identifiers_of_snoc same) (simp add: identifier_at_def new_NTask_def)
  have live': "directory_live ?st'"
    using live by (auto simp: directory_live_def list_all_iff)
  have "list_all (\<lambda>p. actors ?st' p \<noteq> None) (ntask_list st)"
    using live by (auto simp: directory_live_def list_all_iff)
  then have "list_all (\<lambda>p. \<exists>t. actors ?st' p = Some t \<and>
                 ntask_identifier t \<noteq> \<lparr>type = ntype, ID = j\<rparr>) (ntask_list st)"
    by (rule others_differ) (simp add: same free)
  then have "getNTaskByIdentifier \<lparr>type = ntype, ID = j\<rparr> ?st' = Returns (Some this) ?st'"
    unfolding getNTaskByIdentifier_def
    by (simp add: getNTaskByIdentifier_from_skip) (simp add: new_NTask_def)
  then show ?thesis
    using c ids live' dist free by (simp add: identifier_at_def new_NTask_def)
qed

text \<open>
  While the identifiers of the directory are pairwise distinct: after the destruction of
  an actor of the directory, the lookup by its identifier returns none and logs an error.
\<close>

lemma NTask_dtor_consistent:
  assumes live: "directory_live st"
    and distp: "distinct (ntask_list st)"
    and dist: "distinct (identifiers_of st (ntask_list st))"
    and mem: "this \<in> set (ntask_list st)"
    and t: "actors st this = Some t"
  shows "\<exists>st'. NTask_dtor this st = Returns () st' \<and>
               actors st' this = None \<and>
               this \<notin> set (ntask_list st') \<and>
               getNTaskByIdentifier (ntask_identifier t) st' =
                 Returns None
                   (ESP_LOGE NTASK_LOG_TAG ''Can't find Ntask corresponding to Type:ID %X:%X'' st')"
proof -
  let ?st' = "st\<lparr>ntask_list := erase_this this (ntask_list st), actors := (actors st)(this := None)\<rparr>"
  have d: "NTask_dtor this st = Returns () ?st'"
    by (simp add: NTask_dtor_def t)
  have er: "erase_this this ps = remove1 this ps" for ps
    by (induction ps) auto
  have rest: "set (erase_this this (ntask_list st)) = set (ntask_list st) - {this}"
    using distp by (simp add: er)
  have inj: "inj_on (identifier_at st) (set (ntask_list st))"
  proof -
    have "distinct (map Some (identifiers_of st (ntask_list st)))"
      using dist by (simp add: distinct_map)
    then have "distinct (map (identifier_at st) (ntask_list st))"
      using identifiers_of_live live by (simp add: directory_live_def)
    then show ?thesis by (simp add: distinct_map)
  qed
  have "list_all (\<lambda>p. \<exists>u. actors ?st' p = Some u \<and> ntask_identifier u \<noteq> ntask_identifier t)
          (ntask_list ?st')"
  proof (unfold list_all_iff, rule ballI)
    fix p assume "p \<in> set (ntask_list ?st')"
    then have p: "p \<in> set (ntask_list st)" "p \<noteq> this" using rest by auto
    then obtain u where u: "actors st p = Some u"
      using live by (auto simp: directory_live_def list_all_iff)
    have "identifier_at st p \<noteq> identifier_at st this"
      using inj p mem by (auto dest: inj_onD)
    then show "\<exists>u. actors ?st' p = Some u \<and> ntask_identifier u \<noteq> ntask_identifier t"
      using u t p by (simp add: identifier_at_def)
  qed
  then have "getNTaskByIdentifier (ntask_identifier t) ?st' =
      Returns None (ESP_LOGE NTASK_LOG_TAG ''Can't find Ntask corresponding to Type:ID %X:%X'' ?st')"
    unfolding getNTaskByIdentifier_def by (rule getNTaskByIdentifier_from_none)
  then show ?thesis
    using d rest by simp
qed


end
